theory Spec2Isabelle
  imports Main
begin

section \<open>The aggregator gRPC client of openfl\<close>

text \<open>
  A shallow embedding of \<^verbatim>\<open>openfl/transport/grpc/aggregator_client.py\<close>.
  Python objects are records, exceptions are values of the type \<open>exn\<close>, and every
  effect of the code (log lines, sleeps, printed lines, channels opened and closed, the
  answers of the transport) is a field of an explicit world that the functions take and
  return. The two \<^verbatim>\<open>while True\<close> loops are \<^theory_text>\<open>partial_function\<close>s
  in the option monad: \<open>None\<close> is a loop that never returns.
\<close>

subsection \<open>Status codes, transport failures, exceptions\<close>

text \<open>The members of \<^verbatim>\<open>grpc.StatusCode\<close>.\<close>

datatype StatusCode =
    OK | CANCELLED | UNKNOWN | INVALID_ARGUMENT | DEADLINE_EXCEEDED | NOT_FOUND
  | ALREADY_EXISTS | PERMISSION_DENIED | RESOURCE_EXHAUSTED | FAILED_PRECONDITION
  | ABORTED | OUT_OF_RANGE | UNIMPLEMENTED | INTERNAL | UNAVAILABLE | DATA_LOSS
  | UNAUTHENTICATED

text \<open>What a format string prints for a status code: the name of the enum member.\<close>

fun str_StatusCode :: "StatusCode \<Rightarrow> string" where
  "str_StatusCode OK = ''StatusCode.OK''"
| "str_StatusCode CANCELLED = ''StatusCode.CANCELLED''"
| "str_StatusCode UNKNOWN = ''StatusCode.UNKNOWN''"
| "str_StatusCode INVALID_ARGUMENT = ''StatusCode.INVALID_ARGUMENT''"
| "str_StatusCode DEADLINE_EXCEEDED = ''StatusCode.DEADLINE_EXCEEDED''"
| "str_StatusCode NOT_FOUND = ''StatusCode.NOT_FOUND''"
| "str_StatusCode ALREADY_EXISTS = ''StatusCode.ALREADY_EXISTS''"
| "str_StatusCode PERMISSION_DENIED = ''StatusCode.PERMISSION_DENIED''"
| "str_StatusCode RESOURCE_EXHAUSTED = ''StatusCode.RESOURCE_EXHAUSTED''"
| "str_StatusCode FAILED_PRECONDITION = ''StatusCode.FAILED_PRECONDITION''"
| "str_StatusCode ABORTED = ''StatusCode.ABORTED''"
| "str_StatusCode OUT_OF_RANGE = ''StatusCode.OUT_OF_RANGE''"
| "str_StatusCode UNIMPLEMENTED = ''StatusCode.UNIMPLEMENTED''"
| "str_StatusCode INTERNAL = ''StatusCode.INTERNAL''"
| "str_StatusCode UNAVAILABLE = ''StatusCode.UNAVAILABLE''"
| "str_StatusCode DATA_LOSS = ''StatusCode.DATA_LOSS''"
| "str_StatusCode UNAUTHENTICATED = ''StatusCode.UNAUTHENTICATED''"

text \<open>A \<^verbatim>\<open>grpc.RpcError\<close> with its \<^verbatim>\<open>code()\<close> and \<^verbatim>\<open>details()\<close>.\<close>

datatype RpcError = RpcError (code: StatusCode) (details: string)

text \<open>
  What a continuation hands to an interceptor: the response message, or the
  \<^verbatim>\<open>RpcError\<close> object as a value (\<^verbatim>\<open>isinstance(response, grpc.RpcError)\<close>).
\<close>

datatype 'r outcome = Response 'r | Failure RpcError

text \<open>
  The exceptions that leave the functions of the module. \<open>Rpc\<close> is a raised
  \<^verbatim>\<open>grpc.RpcError\<close>; \<open>HeaderMismatchError\<close> is what \<^verbatim>\<open>check_equal\<close> raises,
  with the field (when one is named), the expected and the actual value; \<open>OSError\<close> and \<open>TypeError\<close> are what
  \<^verbatim>\<open>open\<close> raises on a path that cannot be read and on \<^verbatim>\<open>None\<close>;
  \<open>SystemExit\<close> is what \<^verbatim>\<open>exit\<close> raises.
\<close>

datatype exn =
    Rpc RpcError
  | HeaderMismatchError "string option" "string option" "string option"
  | OSError string
  | TypeError
  | SystemExit int

subsection \<open>The world outside the client\<close>

datatype level = DEBUG | INFO | WARNING

text \<open>
  A channel as the channel factory of gRPC made it: its target, the credentials it was
  given (\<open>None\<close> for an insecure channel; otherwise the root certificates, the private key
  and the certificate chain) and whether it is still open.
\<close>

record chan =
  target :: string
  credentials :: "(string \<times> string option \<times> string option) option"
  is_open :: bool

text \<open>
  The world: \<open>server n\<close> is what the transport answers to the \<open>n\<close>-th call it receives
  and \<open>attempts\<close> counts the calls made so far; \<open>logged\<close>, \<open>slept\<close> and \<open>stdout\<close> are
  the log records, the \<^verbatim>\<open>time.sleep\<close> intervals and the printed lines, oldest first;
  \<open>channels\<close> holds every channel ever created, a channel object being its index;
  \<open>files\<close> is the file system the credentials are read from. What a request carries is
  not recorded: the answers are indexed by attempt.
\<close>

record 'r world =
  server :: "nat \<Rightarrow> 'r outcome"
  attempts :: nat
  logged :: "(level \<times> string) list"
  slept :: "nat list"
  stdout :: "string list"
  channels :: "chan list"
  files :: "string \<Rightarrow> string option"

definition logger_debug :: "string \<Rightarrow> 'r world \<Rightarrow> 'r world" where
  "logger_debug msg w = w\<lparr>logged := logged w @ [(DEBUG, msg)]\<rparr>"

definition logger_info :: "string \<Rightarrow> 'r world \<Rightarrow> 'r world" where
  "logger_info msg w = w\<lparr>logged := logged w @ [(INFO, msg)]\<rparr>"

definition logger_warn :: "string \<Rightarrow> 'r world \<Rightarrow> 'r world" where
  "logger_warn msg w = w\<lparr>logged := logged w @ [(WARNING, msg)]\<rparr>"

definition print :: "string \<Rightarrow> 'r world \<Rightarrow> 'r world" where
  "print line w = w\<lparr>stdout := stdout w @ [line]\<rparr>"

definition time_sleep :: "nat \<Rightarrow> 'r world \<Rightarrow> 'r world" where
  "time_sleep secs w = w\<lparr>slept := slept w @ [secs]\<rparr>"

text \<open>
  The innermost continuation: the call goes to the transport, which answers with the
  next outcome of the server.
\<close>

definition transport :: "'r world \<Rightarrow> ('r outcome \<times> 'r world) option" where
  "transport w = Some (server w (attempts w), w\<lparr>attempts := Suc (attempts w)\<rparr>)"

subsection \<open>ConstantBackoff and RetryOnRpcErrorClientInterceptor\<close>

text \<open>
  The interval is a number of seconds that \<^verbatim>\<open>time.sleep\<close> accepts, hence a natural
  number. The logger of the policy is the logger of the module: its records go to
  \<open>logged\<close>.
\<close>

record ConstantBackoff =
  reconnect_interval :: nat
  backoff_uri :: string

definition sleep :: "ConstantBackoff \<Rightarrow> 'r world \<Rightarrow> 'r world" where
  "sleep self w =
     time_sleep (reconnect_interval self)
       (logger_info (''Attempting to connect to aggregator at '' @ backoff_uri self) w)"

record RetryOnRpcErrorClientInterceptor =
  sleeping_policy :: ConstantBackoff
  status_for_retry :: "StatusCode list option"

text \<open>Truth value of an optional tuple: \<^verbatim>\<open>None\<close> and \<^verbatim>\<open>()\<close> are false.\<close>

fun truthy :: "'a list option \<Rightarrow> bool" where
  "truthy None = False"
| "truthy (Some []) = False"
| "truthy (Some (x # xs)) = True"

fun members :: "'a list option \<Rightarrow> 'a set" where
  "members None = {}"
| "members (Some xs) = set xs"

text \<open>
  \<^verbatim>\<open>_intercept_call\<close>: the loop calls the continuation; a response that is not an
  \<^verbatim>\<open>RpcError\<close> is returned; an \<^verbatim>\<open>RpcError\<close> is logged, and returned when
  \<^verbatim>\<open>status_for_retry\<close> is truthy and does not hold its code; otherwise the policy
  sleeps and the loop goes round again.
\<close>

partial_function (option) intercept_call ::
  "RetryOnRpcErrorClientInterceptor \<Rightarrow> ('r world \<Rightarrow> ('r outcome \<times> 'r world) option) \<Rightarrow>
   'r world \<Rightarrow> ('r outcome \<times> 'r world) option" where
  "intercept_call self continuation w =
     (case continuation w of
        None \<Rightarrow> None
      | Some (response, w1) \<Rightarrow>
          (case response of
             Failure e \<Rightarrow>
               (let w2 = logger_info (''Response code: '' @ str_StatusCode (code e)) w1 in
                if truthy (status_for_retry self) \<and> code e \<notin> members (status_for_retry self)
                then Some (response, w2)
                else intercept_call self continuation (sleep (sleeping_policy self) w2))
           | Response r \<Rightarrow> Some (response, w1)))"

text \<open>
  \<^verbatim>\<open>grpc.intercept_channel(channel, *interceptors)\<close>: the interceptors are given
  control in the order they are listed, each with the rest of the chain as its
  continuation.
\<close>

fun intercept_channel ::
  "RetryOnRpcErrorClientInterceptor list \<Rightarrow> 'r world \<Rightarrow> ('r outcome \<times> 'r world) option" where
  "intercept_channel [] = transport"
| "intercept_channel (i # rest) = intercept_call i (intercept_channel rest)"

subsection \<open>Message headers and responses\<close>

record MessageHeader =
  sender :: string
  receiver :: string
  federation_uuid :: string
  single_col_cert_common_name :: string

text \<open>
  Every response message has a header. The responses whose further fields the client
  reads extend \<open>reply\<close> with them; the tensor and the experiment status are opaque to
  the client, so their types are parameters.
\<close>

record reply =
  header :: MessageHeader

record GetTasksResponse = reply +
  round_number :: int
  tasks :: "string list"
  sleep_time :: int
  quit :: bool

record 't GetAggregatedTensorResponse = reply +
  tensor :: 't

subsection \<open>The client\<close>

text \<open>
  The stub is bound to a channel and to the interceptors wrapped around it. The
  interceptors of a client are a tuple: empty for an administrative client, the retry
  interceptor alone otherwise.
\<close>

record AggregatorStub =
  stub_channel :: nat
  stub_interceptors :: "RetryOnRpcErrorClientInterceptor list"

record client =
  uri :: string
  tls :: bool
  disable_client_auth :: bool
  root_certificate :: "string option"
  certificate :: "string option"
  private_key :: "string option"
  channel :: nat
  header :: "MessageHeader option"
  aggregator_uuid :: "string option"
  federation_uuid :: "string option"
  single_col_cert_common_name :: "string option"
  interceptors :: "RetryOnRpcErrorClientInterceptor list"
  stub :: AggregatorStub

text \<open>\<^verbatim>\<open>open(path, "rb").read()\<close>.\<close>

definition read_file :: "string option \<Rightarrow> 'r world \<Rightarrow> exn + string" where
  "read_file path w =
     (case path of
        None \<Rightarrow> Inl TypeError
      | Some p \<Rightarrow> (case files w p of None \<Rightarrow> Inl (OSError p) | Some bytes \<Rightarrow> Inr bytes))"

text \<open>The channel factory of gRPC: a new, open channel object.\<close>

definition new_channel ::
  "string \<Rightarrow> (string \<times> string option \<times> string option) option \<Rightarrow> 'r world \<Rightarrow> nat \<times> 'r world" where
  "new_channel t creds w =
     (length (channels w),
      w\<lparr>channels := channels w @ [\<lparr>target = t, credentials = creds, is_open = True\<rparr>]\<rparr>)"

definition create_insecure_channel :: "string \<Rightarrow> 'r world \<Rightarrow> nat \<times> 'r world" where
  "create_insecure_channel u w = new_channel u None w"

definition create_tls_channel ::
  "string \<Rightarrow> string option \<Rightarrow> bool \<Rightarrow> string option \<Rightarrow> string option \<Rightarrow> 'r world \<Rightarrow>
   (exn + nat) \<times> 'r world" where
  "create_tls_channel u root_cert disable_auth cert key w =
     (case read_file root_cert w of
        Inl e \<Rightarrow> (Inl e, w)
      | Inr root_certificate_b \<Rightarrow>
          if disable_auth then
            (let w1 = logger_warn ''Client-side authentication is disabled.'' w;
                 (ch, w2) = new_channel u (Some (root_certificate_b, None, None)) w1
             in (Inr ch, w2))
          else
            (case read_file key w of
               Inl e \<Rightarrow> (Inl e, w)
             | Inr private_key_b \<Rightarrow>
                 (case read_file cert w of
                    Inl e \<Rightarrow> (Inl e, w)
                  | Inr certificate_b \<Rightarrow>
                      (let (ch, w1) =
                             new_channel u
                               (Some (root_certificate_b, Some private_key_b, Some certificate_b)) w
                       in (Inr ch, w1)))))"

text \<open>
  \<^verbatim>\<open>__init__\<close>. The port comes as the text the format string prints for it, and
  \<^verbatim>\<open>client_reconnect_interval\<close> is the keyword argument of that name, one second when
  it is absent.
\<close>

definition init ::
  "string \<Rightarrow> string \<Rightarrow> bool \<Rightarrow> bool \<Rightarrow> string option \<Rightarrow> string option \<Rightarrow> string option \<Rightarrow>
   string option \<Rightarrow> string option \<Rightarrow> string option \<Rightarrow> bool \<Rightarrow> nat option \<Rightarrow> 'r world \<Rightarrow>
   (exn + client) \<times> 'r world" where
  "init agg_addr agg_port use_tls disable_auth root_cert cert key agg_uuid fed_uuid
        common_name for_admin client_reconnect_interval w =
     (let u = agg_addr @ '':'' @ agg_port;
          opened =
            (if \<not> use_tls then
               (let w1 = logger_warn ''gRPC is running on insecure channel with TLS disabled.'' w;
                    (ch, w2) = create_insecure_channel u w1
                in (Inr ch, w2))
             else create_tls_channel u root_cert disable_auth cert key w)
      in case opened of
           (Inl e, w1) \<Rightarrow> (Inl e, w1)
         | (Inr ch, w1) \<Rightarrow>
             (let ics =
                    (if for_admin then []
                     else [\<lparr>sleeping_policy =
                               \<lparr>reconnect_interval =
                                   (case client_reconnect_interval of None \<Rightarrow> 1 | Some n \<Rightarrow> n),
                                backoff_uri = u\<rparr>,
                             status_for_retry = Some [UNAVAILABLE]\<rparr>])
              in (Inr \<lparr>uri = u, tls = use_tls, disable_client_auth = disable_auth,
                       root_certificate = root_cert, certificate = cert, private_key = key,
                       channel = ch, header = None, aggregator_uuid = agg_uuid,
                       federation_uuid = fed_uuid, single_col_cert_common_name = common_name,
                       interceptors = ics,
                       stub = \<lparr>stub_channel = ch, stub_interceptors = ics\<rparr>\<rparr>,
                  w1)))"

text \<open>
  \<^verbatim>\<open>x or ""\<close> on an optional string. A message field given \<^verbatim>\<open>None\<close> stays at its
  default, the empty string, so the same function reads the optional identities into a
  header.
\<close>

fun or_empty :: "string option \<Rightarrow> string" where
  "or_empty None = ''''"
| "or_empty (Some s) = s"

definition set_header :: "client \<Rightarrow> string \<Rightarrow> client" where
  "set_header self collaborator_name =
     self\<lparr>header :=
       Some \<lparr>sender = collaborator_name,
             receiver = or_empty (aggregator_uuid self),
             federation_uuid = or_empty (client.federation_uuid self),
             single_col_cert_common_name = or_empty (client.single_col_cert_common_name self)\<rparr>\<rparr>"

text \<open>
  Modelled from the spec: \<^verbatim>\<open>check_equal\<close> of \<^verbatim>\<open>openfl.utilities\<close>, which is not
  among the sources. It returns when the two values are equal and otherwise fails with
  the header mismatch error of the spec, which is not a transport failure and has a
  field, an expected and an actual value. Every call in the sources hands it the value
  received, the value expected and the logger, and no name of a field: the field of the
  error is \<^verbatim>\<open>None\<close>.
\<close>

definition check_equal :: "string option \<Rightarrow> string option \<Rightarrow> exn + unit" where
  "check_equal x y = (if x = y then Inr () else Inl (HeaderMismatchError None y x))"

definition validate_response :: "client \<Rightarrow> 'a reply_scheme \<Rightarrow> string \<Rightarrow> exn + unit" where
  "validate_response self rep collaborator_name =
     (case check_equal (Some (receiver (reply.header rep))) (Some collaborator_name) of
        Inl e \<Rightarrow> Inl e
      | Inr _ \<Rightarrow>
     (case check_equal (Some (sender (reply.header rep))) (aggregator_uuid self) of
        Inl e \<Rightarrow> Inl e
      | Inr _ \<Rightarrow>
     (case check_equal (Some (MessageHeader.federation_uuid (reply.header rep)))
             (client.federation_uuid self) of
        Inl e \<Rightarrow> Inl e
      | Inr _ \<Rightarrow>
          check_equal (Some (MessageHeader.single_col_cert_common_name (reply.header rep)))
            (Some (or_empty (client.single_col_cert_common_name self))))))"

text \<open>\<^verbatim>\<open>channel.close()\<close>: closing a closed channel changes nothing.\<close>

definition close :: "nat \<Rightarrow> chan list \<Rightarrow> chan list" where
  "close ch chans =
     (if ch < length chans then chans[ch := (chans ! ch)\<lparr>is_open := False\<rparr>] else chans)"

definition disconnect :: "client \<Rightarrow> 'r world \<Rightarrow> 'r world" where
  "disconnect self w =
     (let w1 = logger_debug (''Disconnecting from gRPC server at '' @ uri self) w
      in w1\<lparr>channels := close (channel self) (channels w1)\<rparr>)"

definition reconnect :: "client \<Rightarrow> 'r world \<Rightarrow> (exn + unit) \<times> client \<times> 'r world" where
  "reconnect self w =
     (let w1 = disconnect self w;
          opened =
            (if \<not> tls self then
               (let (ch, w2) = create_insecure_channel (uri self) w1 in (Inr ch, w2))
             else
               create_tls_channel (uri self) (root_certificate self) (disable_client_auth self)
                 (certificate self) (private_key self) w1)
      in case opened of
           (Inl e, w2) \<Rightarrow> (Inl e, self, w2)
         | (Inr ch, w2) \<Rightarrow>
             (let self1 = self\<lparr>channel := ch\<rparr>;
                  w3 = logger_debug (''Connecting to gRPC at '' @ uri self1) w2
              in (Inr (),
                  self1\<lparr>stub := \<lparr>stub_channel = channel self1,
                                  stub_interceptors = interceptors self1\<rparr>\<rparr>,
                  w3)))"

text \<open>
  A call through the stub: the interceptors run around the transport, and an
  \<^verbatim>\<open>RpcError\<close> that comes back as the outcome is raised to the caller.
\<close>

definition stub_call :: "AggregatorStub \<Rightarrow> 'r world \<Rightarrow> ((exn + 'r) \<times> 'r world) option" where
  "stub_call s w =
     (case intercept_channel (stub_interceptors s) w of
        None \<Rightarrow> None
      | Some (Response r, w1) \<Rightarrow> Some (Inr r, w1)
      | Some (Failure e, w1) \<Rightarrow> Some (Inl (Rpc e), w1))"

subsection \<open>The decorators\<close>

text \<open>
  An operation takes the client and the world and gives the value it returns or the
  exception it raises, with the client and the world as it leaves them; \<open>None\<close> when it
  never returns.
\<close>

type_synonym ('a, 'r) operation =
  "client \<Rightarrow> 'r world \<Rightarrow> ((exn + 'a) \<times> client \<times> 'r world) option"

definition atomic_connection :: "('a, 'r) operation \<Rightarrow> ('a, 'r) operation" where
  "atomic_connection func self w =
     (case reconnect self w of
        (Inl e, self1, w1) \<Rightarrow> Some (Inl e, self1, w1)
      | (Inr _, self1, w1) \<Rightarrow>
          (case func self1 w1 of
             None \<Rightarrow> None
           | Some (Inl e, self2, w2) \<Rightarrow> Some (Inl e, self2, w2)
           | Some (Inr response, self2, w2) \<Rightarrow> Some (Inr response, self2, disconnect self2 w2)))"

definition handle_grpc_error :: "('a, 'r) operation \<Rightarrow> ('a, 'r) operation" where
  "handle_grpc_error func self w =
     (case func self w of
        None \<Rightarrow> None
      | Some (Inl (Rpc error), self1, w1) \<Rightarrow>
          Some (Inl (SystemExit 1), self1,
                print (''gRPC Error: '' @ str_StatusCode (code error) @ ''. Details: ''
                         @ details error) w1)
      | Some (res, self1, w1) \<Rightarrow> Some (res, self1, w1))"

partial_function (option) resend_data_on_reconnection ::
  "(client \<Rightarrow> 'r world \<Rightarrow> ((exn + 'a) \<times> client \<times> 'r world) option) \<Rightarrow>
   client \<Rightarrow> 'r world \<Rightarrow> ((exn + 'a) \<times> client \<times> 'r world) option" where
  "resend_data_on_reconnection func self w =
     (case func self w of
        None \<Rightarrow> None
      | Some (res, self1, w1) \<Rightarrow>
          (case res of
             Inr response \<Rightarrow> Some (Inr response, self1, w1)
           | Inl x \<Rightarrow>
               (case x of
                  Rpc e \<Rightarrow>
                    if code e = UNKNOWN then
                      resend_data_on_reconnection func self1
                        (logger_info (''Attempting to resend data request to aggregator at ''
                                        @ uri self1) w1)
                    else if code e = UNAUTHENTICATED then Some (Inl x, self1, w1)
                    else resend_data_on_reconnection func self1 w1
                | _ \<Rightarrow> Some (Inl x, self1, w1))))"

subsection \<open>The operations\<close>

text \<open>
  The body every operation shares: stamp the header, make the call, validate the header
  of the response, return what the operation takes from the response. The request is
  built from the header and the arguments of the operation and handed to the stub; it is
  not recorded.
\<close>

definition stamp_call_validate ::
  "client \<Rightarrow> string \<Rightarrow> ('z reply_scheme \<Rightarrow> 'a) \<Rightarrow> 'z reply_scheme world \<Rightarrow>
   ((exn + 'a) \<times> client \<times> 'z reply_scheme world) option" where
  "stamp_call_validate self name ret w =
     (let self1 = set_header self name in
      case stub_call (stub self1) w of
        None \<Rightarrow> None
      | Some (Inl e, w1) \<Rightarrow> Some (Inl e, self1, w1)
      | Some (Inr response, w1) \<Rightarrow>
          (case validate_response self1 response name of
             Inl e \<Rightarrow> Some (Inl e, self1, w1)
           | Inr _ \<Rightarrow> Some (Inr (ret response), self1, w1)))"

definition get_tasks ::
  "client \<Rightarrow> string \<Rightarrow> GetTasksResponse world \<Rightarrow>
   ((exn + string list \<times> int \<times> int \<times> bool) \<times> client \<times> GetTasksResponse world) option" where
  "get_tasks self collaborator_name =
     atomic_connection (resend_data_on_reconnection (\<lambda>self.
       stamp_call_validate self collaborator_name
         (\<lambda>response.
            (tasks response, round_number response, sleep_time response, quit response))))
       self"

definition get_aggregated_tensor ::
  "client \<Rightarrow> string \<Rightarrow> string \<Rightarrow> int \<Rightarrow> bool \<Rightarrow> string list \<Rightarrow> bool \<Rightarrow>
   't GetAggregatedTensorResponse world \<Rightarrow>
   ((exn + 't) \<times> client \<times> 't GetAggregatedTensorResponse world) option" where
  "get_aggregated_tensor self collaborator_name tensor_name round_no report tags
       require_lossless =
     atomic_connection (resend_data_on_reconnection (\<lambda>self.
       stamp_call_validate self collaborator_name (\<lambda>response. tensor response)))
       self"

definition send_local_task_results ::
  "client \<Rightarrow> string \<Rightarrow> int \<Rightarrow> string \<Rightarrow> int \<Rightarrow> 't list \<Rightarrow> 'z reply_scheme world \<Rightarrow>
   ((exn + unit) \<times> client \<times> 'z reply_scheme world) option" where
  "send_local_task_results self collaborator_name round_no task_name data_size named_tensors =
     atomic_connection (resend_data_on_reconnection (\<lambda>self.
       stamp_call_validate self collaborator_name (\<lambda>response. ())))
       self"

definition connectivity_check ::
  "client \<Rightarrow> string \<Rightarrow> 'z reply_scheme world \<Rightarrow>
   ((exn + unit) \<times> client \<times> 'z reply_scheme world) option" where
  "connectivity_check self collaborator_name =
     handle_grpc_error (atomic_connection (\<lambda>self.
       stamp_call_validate self collaborator_name (\<lambda>response. ())))
       self"

definition admin_add_collaborator ::
  "client \<Rightarrow> string \<Rightarrow> string \<Rightarrow> string \<Rightarrow> 'z reply_scheme world \<Rightarrow>
   ((exn + unit) \<times> client \<times> 'z reply_scheme world) option" where
  "admin_add_collaborator self admin_name col_label col_cn =
     handle_grpc_error (atomic_connection (\<lambda>self.
       stamp_call_validate self admin_name (\<lambda>response. ())))
       self"

definition admin_remove_collaborator ::
  "client \<Rightarrow> string \<Rightarrow> string \<Rightarrow> string \<Rightarrow> 'z reply_scheme world \<Rightarrow>
   ((exn + unit) \<times> client \<times> 'z reply_scheme world) option" where
  "admin_remove_collaborator self admin_name col_label col_cn =
     handle_grpc_error (atomic_connection (\<lambda>self.
       stamp_call_validate self admin_name (\<lambda>response. ())))
       self"

text \<open>
  \<^verbatim>\<open>convert_experiment_status_proto_to_dict\<close> of \<^verbatim>\<open>openfl.utilities\<close> is not among
  the sources: it is the parameter \<open>convert\<close>.
\<close>

definition admin_get_experiment_status ::
  "('z reply_scheme \<Rightarrow> 'd) \<Rightarrow> client \<Rightarrow> string \<Rightarrow> 'z reply_scheme world \<Rightarrow>
   ((exn + 'd) \<times> client \<times> 'z reply_scheme world) option" where
  "admin_get_experiment_status convert self admin_name =
     handle_grpc_error (atomic_connection (\<lambda>self.
       stamp_call_validate self admin_name (\<lambda>response. convert response)))
       self"

definition admin_set_straggler_cutoff_time ::
  "client \<Rightarrow> string \<Rightarrow> int \<Rightarrow> 'z reply_scheme world \<Rightarrow>
   ((exn + unit) \<times> client \<times> 'z reply_scheme world) option" where
  "admin_set_straggler_cutoff_time self admin_name timeout_in_seconds =
     handle_grpc_error (atomic_connection (\<lambda>self.
       stamp_call_validate self admin_name (\<lambda>response. ())))
       self"

subsection \<open>Notions used in the statements\<close>

text \<open>
  An interceptor retries a failure unless its \<^verbatim>\<open>status_for_retry\<close> is truthy and
  does not hold the status of the failure.
\<close>

definition retried :: "RetryOnRpcErrorClientInterceptor \<Rightarrow> RpcError \<Rightarrow> bool" where
  "retried self e =
     (if truthy (status_for_retry self) then code e \<in> members (status_for_retry self) else True)"

text \<open>
  An outcome passes a chain of interceptors when none of them retries it: a response
  always does, a failure when no interceptor retries it.
\<close>

fun passes :: "RetryOnRpcErrorClientInterceptor list \<Rightarrow> 'r outcome \<Rightarrow> bool" where
  "passes ics (Response r) = True"
| "passes ics (Failure e) = list_all (\<lambda>i. \<not> retried i e) ics"

text \<open>The parts of the world that a call through the stub leaves alone.\<close>

definition same_outside :: "'r world \<Rightarrow> 'r world \<Rightarrow> bool" where
  "same_outside w w' =
     (server w' = server w \<and> channels w' = channels w \<and> files w' = files w \<and>
      stdout w' = stdout w)"

subsection \<open>Concrete inputs\<close>

text \<open>
  A world in which nothing has happened yet, a server that fails a number of times and
  then gives its final answer for ever, the retry interceptor with a given set of
  statuses, and a response to \<^verbatim>\<open>GetTasks\<close>.
\<close>

definition example_world :: "(nat \<Rightarrow> 'r outcome) \<Rightarrow> 'r world" where
  "example_world srv =
     \<lparr>server = srv, attempts = 0, logged = [], slept = [], stdout = [], channels = [],
      files = (\<lambda>p. None)\<rparr>"

definition fails_then :: "nat \<Rightarrow> RpcError \<Rightarrow> 'r outcome \<Rightarrow> nat \<Rightarrow> 'r outcome" where
  "fails_then n e final k = (if k < n then Failure e else final)"

definition example_retry :: "StatusCode list option \<Rightarrow> RetryOnRpcErrorClientInterceptor" where
  "example_retry codes =
     \<lparr>sleeping_policy = \<lparr>reconnect_interval = 1, backoff_uri = ''localhost:50051''\<rparr>,
      status_for_retry = codes\<rparr>"

definition example_tasks :: GetTasksResponse where
  "example_tasks =
     \<lparr>reply.header =
        \<lparr>sender = ''agg-uuid'', receiver = ''collab-1'', federation_uuid = ''fed-uuid'',
         single_col_cert_common_name = ''''\<rparr>,
      round_number = 3, tasks = [''train'', ''validate''], sleep_time = 0, quit = False\<rparr>"

text \<open>
  The client that \<^verbatim>\<open>__init__\<close> builds in plaintext mode for the aggregator
  \<^verbatim>\<open>agg-uuid\<close> of the federation \<^verbatim>\<open>fed-uuid\<close>, and the world it leaves behind.
\<close>

definition example_client :: "bool \<Rightarrow> client" where
  "example_client for_admin =
     \<lparr>uri = ''localhost:50051'', tls = False, disable_client_auth = False,
      root_certificate = None, certificate = None, private_key = None,
      channel = 0, header = None, aggregator_uuid = Some ''agg-uuid'',
      federation_uuid = Some ''fed-uuid'', single_col_cert_common_name = None,
      interceptors = (if for_admin then [] else [example_retry (Some [UNAVAILABLE])]),
      stub = \<lparr>stub_channel = 0,
              stub_interceptors =
                (if for_admin then [] else [example_retry (Some [UNAVAILABLE])])\<rparr>\<rparr>"

definition example_started :: "(nat \<Rightarrow> 'r outcome) \<Rightarrow> 'r world" where
  "example_started srv =
     \<lparr>server = srv, attempts = 0,
      logged = [(WARNING, ''gRPC is running on insecure channel with TLS disabled.'')],
      slept = [], stdout = [],
      channels = [\<lparr>target = ''localhost:50051'', credentials = None, is_open = True\<rparr>],
      files = (\<lambda>p. None)\<rparr>"

text \<open>
  An answer of the server settles a call of the operations that resend: a response does,
  and so does an authentication failure. \<open>answer_result\<close> is what the body of an
  operation makes of the outcome its call through the stub ends with.
\<close>

fun settles :: "'r outcome \<Rightarrow> bool" where
  "settles (Response r) = True"
| "settles (Failure e) = (code e = UNAUTHENTICATED)"

fun answer_result ::
  "client \<Rightarrow> string \<Rightarrow> ('z reply_scheme \<Rightarrow> 'a) \<Rightarrow> 'z reply_scheme outcome \<Rightarrow> exn + 'a" where
  "answer_result self name ret (Response r) =
     (case validate_response self r name of Inl e \<Rightarrow> Inl e | Inr u \<Rightarrow> Inr (ret r))"
| "answer_result self name ret (Failure e) = Inl (Rpc e)"

text \<open>
  The line that the error handler prints for a transport failure, and two observations
  of a run that started in the world \<open>w\<close>: it has ended in \<^verbatim>\<open>exit(1)\<close> with that
  line printed last, and it has made one attempt and no wait.
\<close>

definition error_line :: "RpcError \<Rightarrow> string" where
  "error_line e = ''gRPC Error: '' @ str_StatusCode (code e) @ ''. Details: '' @ details e"

definition exits_reporting ::
  "RpcError \<Rightarrow> 'r world \<Rightarrow> ((exn + 'a) \<times> client \<times> 'r world) option \<Rightarrow> bool" where
  "exits_reporting e w run =
     (case run of
        None \<Rightarrow> False
      | Some (res, self', w') \<Rightarrow>
          res = Inl (SystemExit 1) \<and> stdout w' = stdout w @ [error_line e])"

definition one_attempt_no_wait ::
  "'r world \<Rightarrow> ((exn + 'a) \<times> client \<times> 'r world) option \<Rightarrow> bool" where
  "one_attempt_no_wait w run =
     (case run of
        None \<Rightarrow> False
      | Some (res, self', w') \<Rightarrow> attempts w' = Suc (attempts w) \<and> slept w' = slept w)"

text \<open>
  Three more observations of a run of an operation on the client \<open>self\<close> in the world
  \<open>w\<close>; each holds of a run that never returns.

  \<open>keeps_config\<close>: the client it leaves differs from \<open>self\<close> at most in the channel, the
  stub and the header.

  \<open>lifecycle\<close>: the channel of the client it leaves is a new one, the only one created,
  and the stub is bound to it; the channels that existed before are as they were, but
  for the former channel of the client, which is closed; and the new channel is open
  at the end exactly when the run ends in an exception.

  \<open>raises_only_unauthenticated\<close>: when it ends in a transport failure, the status of
  that failure is the authentication failure.
\<close>

definition keeps_config ::
  "client \<Rightarrow> ((exn + 'a) \<times> client \<times> 'r world) option \<Rightarrow> bool" where
  "keeps_config self run =
     (case run of
        None \<Rightarrow> True
      | Some (res, self', w') \<Rightarrow>
          self' = self\<lparr>channel := channel self', header := header self', stub := stub self'\<rparr>)"


definition raises_only_unauthenticated ::
  "((exn + 'a) \<times> client \<times> 'r world) option \<Rightarrow> bool" where
  "raises_only_unauthenticated run =
     (case run of
        Some (Inl (Rpc e), self', w') \<Rightarrow> code e = UNAUTHENTICATED
      | _ \<Rightarrow> True)"

text \<open>
  The situation in which an operation that resends returns: the channel opens, the next
  \<open>N\<close> answers of the server are failures other than the authentication failure, and
  the answer after them is a response or an authentication failure that no interceptor
  of the client retries.
\<close>

definition settled_after :: "nat \<Rightarrow> client \<Rightarrow> 'r world \<Rightarrow> bool" where
  "settled_after N self w =
     (fst (reconnect self w) = Inr () \<and>
      list_all (\<lambda>k. \<not> settles (server w (attempts w + k))) [0..<N] \<and>
      settles (server w (attempts w + N)) \<and>
      passes (interceptors self) (server w (attempts w + N)))"


text \<open>
  Two more clients with the responses that suit them: one whose caller \<^verbatim>\<open>collab-1\<close>
  bears the aggregator uuid as its name, and one with the common name \<^verbatim>\<open>cn-1\<close>
  configured.
\<close>

definition example_twin_client :: client where
  "example_twin_client = (example_client False)\<lparr>aggregator_uuid := Some ''collab-1''\<rparr>"

definition example_twin_tasks :: GetTasksResponse where
  "example_twin_tasks =
     example_tasks\<lparr>reply.header := (reply.header example_tasks)\<lparr>sender := ''collab-1''\<rparr>\<rparr>"

definition example_named_client :: client where
  "example_named_client =
     (example_client False)\<lparr>single_col_cert_common_name := Some ''cn-1''\<rparr>"

definition example_named_tasks :: GetTasksResponse where
  "example_named_tasks =
     example_tasks
       \<lparr>reply.header :=
          (reply.header example_tasks)\<lparr>MessageHeader.single_col_cert_common_name := ''cn-1''\<rparr>\<rparr>"

text \<open>
  One more observation of a run that started in the world \<open>w\<close>: it has made \<open>N + 1\<close>
  attempts and \<open>N\<close> waits of the given number of seconds.
\<close>

definition waits_and_attempts ::
  "nat \<Rightarrow> nat \<Rightarrow> 'r world \<Rightarrow> ((exn + 'a) \<times> client \<times> 'r world) option \<Rightarrow> bool" where
  "waits_and_attempts N secs w run =
     (case run of
        None \<Rightarrow> False
      | Some (res, self', w') \<Rightarrow>
          attempts w' = attempts w + N + 1 \<and> slept w' = slept w @ replicate N secs)"

section \<open>The retry interceptor\<close>

lemmas world_defs =
  logger_info_def logger_debug_def logger_warn_def print_def time_sleep_def sleep_def

lemma same_outside_refl: "same_outside w w"
  by (simp add: same_outside_def)

lemma same_outside_trans: "same_outside a b \<Longrightarrow> same_outside b c \<Longrightarrow> same_outside a c"
  by (simp add: same_outside_def)

lemma same_outside_log:
  "same_outside w (logger_info m w)" "same_outside w (logger_debug m w)"
  "same_outside w (logger_warn m w)" "same_outside w (sleep p w)"
  "same_outside w (w\<lparr>attempts := n\<rparr>)"
  by (simp_all add: same_outside_def world_defs)

lemma intercept_call_Response:
  "continuation w = Some (Response r, w1) \<Longrightarrow>
   intercept_call self continuation w = Some (Response r, w1)"
  by (subst intercept_call.simps) simp

lemma intercept_call_return:
  "continuation w = Some (Failure e, w1) \<Longrightarrow> \<not> retried self e \<Longrightarrow>
   intercept_call self continuation w =
     Some (Failure e, logger_info (''Response code: '' @ str_StatusCode (code e)) w1)"
  by (subst intercept_call.simps) (simp add: retried_def split: if_splits)

lemma intercept_call_retry:
  "continuation w = Some (Failure e, w1) \<Longrightarrow> retried self e \<Longrightarrow>
   intercept_call self continuation w =
     intercept_call self continuation
       (sleep (sleeping_policy self)
          (logger_info (''Response code: '' @ str_StatusCode (code e)) w1))"
  by (subst intercept_call.simps) (simp add: retried_def split: if_splits)

text \<open>
  Whatever the loop returns, it leaves alone what its continuation leaves alone.
\<close>

lemma intercept_call_frame:
  assumes k: "\<And>w x w'. k w = Some (x, w') \<Longrightarrow> same_outside w w'"
    and r: "intercept_call self k w = Some (x, w')"
  shows "same_outside w w'"
proof -
  have "(\<forall>w x w'. k w = Some (x, w') \<longrightarrow> same_outside w w') \<longrightarrow> same_outside w (snd (x, w'))"
  proof (rule intercept_call.raw_induct
      [where P = "\<lambda>s c w y. (\<forall>w x w'. c w = Some (x, w') \<longrightarrow> same_outside w w')
                     \<longrightarrow> same_outside w (snd y)", OF _ r])
    fix ic :: "RetryOnRpcErrorClientInterceptor \<Rightarrow> ('a world \<Rightarrow> ('a outcome \<times> 'a world) option)
                \<Rightarrow> 'a world \<Rightarrow> ('a outcome \<times> 'a world) option"
    fix s c w y
    assume IH: "\<And>s c w y. ic s c w = Some y \<Longrightarrow>
                 (\<forall>w x w'. c w = Some (x, w') \<longrightarrow> same_outside w w') \<longrightarrow> same_outside w (snd y)"
    assume body: "(case c w of None \<Rightarrow> None
      | Some (response, w1) \<Rightarrow>
          (case response of Response r \<Rightarrow> Some (response, w1)
          | Failure e \<Rightarrow>
              let w2 = logger_info (''Response code: '' @ str_StatusCode (code e)) w1
              in if truthy (status_for_retry s) \<and> code e \<notin> members (status_for_retry s)
                 then Some (response, w2)
                 else ic s c (sleep (sleeping_policy s) w2))) = Some y"
    show "(\<forall>w x w'. c w = Some (x, w') \<longrightarrow> same_outside w w') \<longrightarrow> same_outside w (snd y)"
    proof
      assume K: "\<forall>w x w'. c w = Some (x, w') \<longrightarrow> same_outside w w'"
      from body obtain z w1 where cw: "c w = Some (z, w1)"
        by (auto split: option.splits)
      with K have s1: "same_outside w w1" by blast
      show "same_outside w (snd y)"
      proof (cases z)
        case (Response r)
        with body cw show ?thesis using s1 by auto
      next
        case (Failure e)
        let ?w2 = "logger_info (''Response code: '' @ str_StatusCode (code e)) w1"
        have s2: "same_outside w ?w2"
          using s1 same_outside_log(1) same_outside_trans by blast
        show ?thesis
        proof (cases "truthy (status_for_retry s) \<and> code e \<notin> members (status_for_retry s)")
          case True
          with body cw Failure show ?thesis using s2 by (auto simp add: Let_def)
        next
          case False
          with body cw Failure
          have "ic s c (sleep (sleeping_policy s) ?w2) = Some y"
            by (auto simp add: Let_def)
          from IH[OF this] K
          have "same_outside (sleep (sleeping_policy s) ?w2) (snd y)" by blast
          then show ?thesis
            using s2 same_outside_log(4) same_outside_trans by blast
        qed
      qed
    qed
  qed
  with k show ?thesis by simp
qed

lemma transport_frame: "transport w = Some (x, w') \<Longrightarrow> same_outside w w'"
  by (auto simp add: transport_def same_outside_def)

lemma intercept_channel_frame:
  "intercept_channel ics w = Some (x, w') \<Longrightarrow> same_outside w w'"
proof (induction ics arbitrary: w x w')
  case Nil
  then show ?case by (simp add: transport_frame)
next
  case (Cons i ics)
  show ?case
    by (rule intercept_call_frame[where k = "intercept_channel ics" and self = i])
       (use Cons in auto)
qed


lemma passes_Cons: "passes (i # ics) x \<Longrightarrow> passes ics x"
  by (cases x) simp_all

lemma intercept_call_result:
  assumes inner: "\<And>N w. passes ics (server w (attempts w + N)) \<Longrightarrow>
      \<exists>k\<le>N. \<exists>w'. K w = Some (server w (attempts w + k), w') \<and>
        attempts w' = attempts w + k + 1 \<and> same_outside w w'"
  shows "passes (i # ics) (server w (attempts w + N)) \<Longrightarrow>
      \<exists>k\<le>N. \<exists>w'. intercept_call i K w = Some (server w (attempts w + k), w') \<and>
        attempts w' = attempts w + k + 1 \<and> same_outside w w'"
proof (induction N arbitrary: w rule: less_induct)
  case (less N)
  from less.prems have "passes ics (server w (attempts w + N))"
    by (rule passes_Cons)
  from inner[OF this] obtain k w1 where k: "k \<le> N"
    and Kw: "K w = Some (server w (attempts w + k), w1)"
    and a1: "attempts w1 = attempts w + k + 1" and s1: "same_outside w w1"
    by blast
  show ?case
  proof (cases "server w (attempts w + k)")
    case (Response r)
    with Kw have "intercept_call i K w = Some (server w (attempts w + k), w1)"
      by (simp add: intercept_call_Response)
    with k a1 s1 show ?thesis by blast
  next
    case (Failure e)
    let ?w2 = "logger_info (''Response code: '' @ str_StatusCode (code e)) w1"
    have a2: "attempts ?w2 = attempts w + k + 1" and s2: "same_outside w ?w2"
      using a1 s1 by (simp_all add: world_defs same_outside_def)
    show ?thesis
    proof (cases "retried i e")
      case False
      with Kw Failure have "intercept_call i K w = Some (server w (attempts w + k), ?w2)"
        by (simp add: intercept_call_return)
      with k a2 s2 show ?thesis by blast
    next
      case True
      let ?w3 = "sleep (sleeping_policy i) ?w2"
      have a3: "attempts ?w3 = attempts w + k + 1" and s3: "same_outside w ?w3"
        and sv: "server ?w3 = server w"
        using a1 s1 by (simp_all add: world_defs same_outside_def)
      have "k \<noteq> N"
        using less.prems Failure True by auto
      with k have kN: "k < N" by simp
      have step: "intercept_call i K w = intercept_call i K ?w3"
        using Kw Failure True by (simp add: intercept_call_retry)
      have p3: "passes (i # ics) (server ?w3 (attempts ?w3 + (N - k - 1)))"
        using less.prems kN a3 sv by simp
      have lt: "N - k - 1 < N" using kN by simp
      from less.IH[OF lt p3]
      obtain k' w' where k': "k' \<le> N - k - 1"
        and r: "intercept_call i K ?w3 = Some (server ?w3 (attempts ?w3 + k'), w')"
        and a': "attempts w' = attempts ?w3 + k' + 1" and s': "same_outside ?w3 w'"
        by blast
      have "k + 1 + k' \<le> N" using k' kN by simp
      moreover have "intercept_call i K w = Some (server w (attempts w + (k + 1 + k')), w')"
        using step r a3 sv by (simp add: add.assoc)
      moreover have "attempts w' = attempts w + (k + 1 + k') + 1"
        using a' a3 by simp
      moreover have "same_outside w w'"
        using s3 s' by (rule same_outside_trans)
      ultimately show ?thesis by blast
    qed
  qed
qed

lemma intercept_channel_result:
  "passes ics (server w (attempts w + N)) \<Longrightarrow>
   \<exists>k\<le>N. \<exists>w'. intercept_channel ics w = Some (server w (attempts w + k), w') \<and>
     attempts w' = attempts w + k + 1 \<and> same_outside w w'"
proof (induction ics arbitrary: N w)
  case Nil
  have "transport w = Some (server w (attempts w + 0), w\<lparr>attempts := Suc (attempts w)\<rparr>)"
    by (simp add: transport_def)
  moreover have "same_outside w (w\<lparr>attempts := Suc (attempts w)\<rparr>)"
    by (rule same_outside_log)
  ultimately show ?case
    by (intro exI[of _ 0] exI[of _ "w\<lparr>attempts := Suc (attempts w)\<rparr>"]) simp
next
  case (Cons i ics)
  show ?case
    unfolding intercept_channel.simps
    by (rule intercept_call_result[where ics = ics]) (use Cons in auto)
qed

lemma intercept_channel_pass:
  "passes ics (server w (attempts w)) \<Longrightarrow>
   \<exists>w'. intercept_channel ics w = Some (server w (attempts w), w') \<and>
     attempts w' = Suc (attempts w) \<and> slept w' = slept w \<and> same_outside w w'"
proof (induction ics)
  case Nil
  show ?case
    by (simp add: transport_def same_outside_def)
next
  case (Cons i ics)
  then obtain w1 where w1: "intercept_channel ics w = Some (server w (attempts w), w1)"
    "attempts w1 = Suc (attempts w)" "slept w1 = slept w" "same_outside w w1"
    using passes_Cons by blast
  show ?case
  proof (cases "server w (attempts w)")
    case (Response r)
    with w1 show ?thesis by (simp add: intercept_call_Response)
  next
    case (Failure e)
    with Cons.prems have "\<not> retried i e" by simp
    with w1 Failure show ?thesis
      by (simp add: intercept_call_return world_defs same_outside_def)
  qed
qed


lemma retries_then_response:
  "(\<forall>k<N. \<exists>e. server w (attempts w + k) = Failure e \<and> retried self e) \<Longrightarrow>
   server w (attempts w + N) = Response r \<Longrightarrow>
   \<exists>w'. intercept_call self transport w = Some (Response r, w') \<and>
        slept w' = slept w @ replicate N (reconnect_interval (sleeping_policy self)) \<and>
        attempts w' = attempts w + N + 1"
proof (induction N arbitrary: w)
  case 0
  then have "transport w = Some (Response r, w\<lparr>attempts := Suc (attempts w)\<rparr>)"
    by (simp add: transport_def)
  then show ?case
    by (simp add: intercept_call_Response)
next
  case (Suc N)
  from Suc.prems(1) obtain e where e: "server w (attempts w) = Failure e" "retried self e"
    by force
  define w1 where "w1 = w\<lparr>attempts := Suc (attempts w)\<rparr>"
  define w2 where
    "w2 = sleep (sleeping_policy self)
            (logger_info (''Response code: '' @ str_StatusCode (code e)) w1)"
  have t: "transport w = Some (Failure e, w1)"
    using e by (simp add: transport_def w1_def)
  have step: "intercept_call self transport w = intercept_call self transport w2"
    unfolding w2_def using t e(2) by (rule intercept_call_retry)
  have w2: "server w2 = server w" "attempts w2 = Suc (attempts w)"
    "slept w2 = slept w @ [reconnect_interval (sleeping_policy self)]"
    by (simp_all add: w2_def w1_def world_defs)
  have "\<forall>k<N. \<exists>e. server w2 (attempts w2 + k) = Failure e \<and> retried self e"
    using Suc.prems(1) w2 by (metis add_Suc_shift Suc_less_eq)
  moreover have "server w2 (attempts w2 + N) = Response r"
    using Suc.prems(2) w2 by simp
  ultimately obtain w' where "intercept_call self transport w2 = Some (Response r, w')"
    "slept w' = slept w2 @ replicate N (reconnect_interval (sleeping_policy self))"
    "attempts w' = attempts w2 + N + 1"
    using Suc.IH by blast
  then show ?case
    using step w2 by (simp add: replicate_app_Cons_same)
qed

lemma failure_returned_at_once:
  "server w (attempts w) = Failure e \<Longrightarrow> \<not> retried self e \<Longrightarrow>
   \<exists>w'. intercept_call self transport w = Some (Failure e, w') \<and> slept w' = slept w \<and>
        attempts w' = Suc (attempts w)"
  using intercept_channel_pass[of "[self]" w] by auto

text \<open>
  Claim C3. Let the set of statuses of the interceptor be non-empty. If the wrapped call
  fails on the next \<open>N\<close> attempts with statuses of the set and then succeeds, the
  interceptor returns that response after exactly \<open>N\<close> backoff waits and \<open>N + 1\<close>
  attempts. If the first attempt fails with a status outside the set, the failure is
  returned after that one attempt and no wait.
\<close>

theorem retry_interceptor_counts_waits:
  assumes "truthy (status_for_retry self)"
  shows "((\<forall>k<N. \<exists>e. server w (attempts w + k) = Failure e \<and>
                    code e \<in> members (status_for_retry self)) \<and>
          server w (attempts w + N) = Response r \<longrightarrow>
          (\<exists>w'. intercept_call self transport w = Some (Response r, w') \<and>
                slept w' = slept w @ replicate N (reconnect_interval (sleeping_policy self)) \<and>
                attempts w' = attempts w + N + 1)) \<and>
         (server v (attempts v) = Failure e \<and> code e \<notin> members (status_for_retry self) \<longrightarrow>
          (\<exists>v'. intercept_call self transport v = Some (Failure e, v') \<and>
                slept v' = slept v \<and> attempts v' = Suc (attempts v)))"
proof (intro conjI impI)
  assume h: "(\<forall>k<N. \<exists>e. server w (attempts w + k) = Failure e \<and>
                code e \<in> members (status_for_retry self)) \<and>
             server w (attempts w + N) = Response r"
  with assms have "\<forall>k<N. \<exists>e. server w (attempts w + k) = Failure e \<and> retried self e"
    by (simp add: retried_def)
  with h show "\<exists>w'. intercept_call self transport w = Some (Response r, w') \<and>
      slept w' = slept w @ replicate N (reconnect_interval (sleeping_policy self)) \<and>
      attempts w' = attempts w + N + 1"
    by (intro retries_then_response) simp_all
next
  assume "server v (attempts v) = Failure e \<and> code e \<notin> members (status_for_retry self)"
  with assms show "\<exists>v'. intercept_call self transport v = Some (Failure e, v') \<and>
      slept v' = slept v \<and> attempts v' = Suc (attempts v)"
    by (simp add: failure_returned_at_once retried_def)
qed

theorem retry_interceptor_counts_waits_witness:
  "(\<exists>w'. intercept_call (example_retry (Some [UNAVAILABLE])) transport
           (example_world (fails_then 2 (RpcError UNAVAILABLE ''down'') (Response example_tasks)))
         = Some (Response example_tasks, w') \<and> slept w' = [1, 1] \<and> attempts w' = 3) \<and>
   (\<exists>v'. intercept_call (example_retry (Some [UNAVAILABLE])) transport
           (example_world
              (fails_then 1 (RpcError PERMISSION_DENIED ''denied'') (Response example_tasks)))
         = Some (Failure (RpcError PERMISSION_DENIED ''denied''), v') \<and>
         slept v' = [] \<and> attempts v' = 1)"
  using retry_interceptor_counts_waits
    [of "example_retry (Some [UNAVAILABLE])" 2
        "example_world (fails_then 2 (RpcError UNAVAILABLE ''down'') (Response example_tasks))"
        example_tasks
        "example_world
           (fails_then 1 (RpcError PERMISSION_DENIED ''denied'') (Response example_tasks))"
        "RpcError PERMISSION_DENIED ''denied''"]
  by (auto simp add: example_retry_def example_world_def fails_then_def numeral_2_eq_2)

lemma intercept_call_no_failure:
  assumes t: "\<not> truthy (status_for_retry self)"
    and r: "intercept_call self k w = Some (x, w')"
  shows "\<exists>r. x = Response r"
proof -
  have "\<not> truthy (status_for_retry self) \<longrightarrow> (\<exists>r. fst (x, w') = Response r)"
  proof (rule intercept_call.raw_induct
      [where P = "\<lambda>s c w y. \<not> truthy (status_for_retry s) \<longrightarrow> (\<exists>r. fst y = Response r)",
       OF _ r])
    fix ic :: "RetryOnRpcErrorClientInterceptor \<Rightarrow> ('a world \<Rightarrow> ('a outcome \<times> 'a world) option)
                \<Rightarrow> 'a world \<Rightarrow> ('a outcome \<times> 'a world) option"
    fix s c w y
    assume IH: "\<And>s c w y. ic s c w = Some y \<Longrightarrow>
                 \<not> truthy (status_for_retry s) \<longrightarrow> (\<exists>r. fst y = Response r)"
    assume body: "(case c w of None \<Rightarrow> None
      | Some (response, w1) \<Rightarrow>
          (case response of Response r \<Rightarrow> Some (response, w1)
          | Failure e \<Rightarrow>
              let w2 = logger_info (''Response code: '' @ str_StatusCode (code e)) w1
              in if truthy (status_for_retry s) \<and> code e \<notin> members (status_for_retry s)
                 then Some (response, w2)
                 else ic s c (sleep (sleeping_policy s) w2))) = Some y"
    show "\<not> truthy (status_for_retry s) \<longrightarrow> (\<exists>r. fst y = Response r)"
    proof
      assume nt: "\<not> truthy (status_for_retry s)"
      from body obtain z w1 where cw: "c w = Some (z, w1)"
        by (auto split: option.splits)
      show "\<exists>r. fst y = Response r"
      proof (cases z)
        case (Response r)
        with body cw show ?thesis by auto
      next
        case (Failure e)
        with body cw nt
        have "ic s c (sleep (sleeping_policy s)
                (logger_info (''Response code: '' @ str_StatusCode (code e)) w1)) = Some y"
          by (auto simp add: Let_def)
        from IH[OF this] nt show ?thesis by blast
      qed
    qed
  qed
  with t show ?thesis by simp
qed

lemma not_truthy_iff: "(\<not> truthy s) = (s = None \<or> s = Some [])"
  by (cases s rule: truthy.cases) simp_all

text \<open>
  Claim C10. When the set of statuses of the interceptor is absent or empty, a failure of
  any status makes the interceptor log it, wait and call again; after \<open>N\<close> failures
  and a response it returns the response with exactly \<open>N\<close> waits; and what it
  returns is never a failure, so the branch that returns a failure at once is not
  reachable. (With a non-empty set that branch is taken, as the theorem on the waits of
  the interceptor shows.)
\<close>

theorem empty_retry_set_retries_every_failure:
  assumes "status_for_retry self = None \<or> status_for_retry self = Some []"
  shows "(server w (attempts w) = Failure e \<longrightarrow>
          intercept_call self transport w =
            intercept_call self transport
              (sleep (sleeping_policy self)
                 (logger_info (''Response code: '' @ str_StatusCode (code e))
                    (w\<lparr>attempts := Suc (attempts w)\<rparr>)))) \<and>
         ((\<forall>k<N. \<exists>e. server w (attempts w + k) = Failure e) \<and>
          server w (attempts w + N) = Response r \<longrightarrow>
          (\<exists>w'. intercept_call self transport w = Some (Response r, w') \<and>
                slept w' = slept w @ replicate N (reconnect_interval (sleeping_policy self)) \<and>
                attempts w' = attempts w + N + 1)) \<and>
         (intercept_call self transport w = Some (x, v) \<longrightarrow> (\<exists>r. x = Response r))"
proof -
  from assms have nt: "\<not> truthy (status_for_retry self)"
    by (simp add: not_truthy_iff)
  then have all: "retried self e" for e
    by (simp add: retried_def)
  show ?thesis
  proof (intro conjI impI)
    assume "server w (attempts w) = Failure e"
    then have "transport w = Some (Failure e, w\<lparr>attempts := Suc (attempts w)\<rparr>)"
      by (simp add: transport_def)
    then show "intercept_call self transport w =
        intercept_call self transport
          (sleep (sleeping_policy self)
             (logger_info (''Response code: '' @ str_StatusCode (code e))
                (w\<lparr>attempts := Suc (attempts w)\<rparr>)))"
      using all by (rule intercept_call_retry)
  next
    assume h: "(\<forall>k<N. \<exists>e. server w (attempts w + k) = Failure e) \<and>
               server w (attempts w + N) = Response r"
    then show "\<exists>w'. intercept_call self transport w = Some (Response r, w') \<and>
        slept w' = slept w @ replicate N (reconnect_interval (sleeping_policy self)) \<and>
        attempts w' = attempts w + N + 1"
      by (intro retries_then_response) (simp_all add: all)
  next
    assume "intercept_call self transport w = Some (x, v)"
    with nt show "\<exists>r. x = Response r"
      by (rule intercept_call_no_failure)
  qed
qed

theorem empty_retry_set_retries_every_failure_witness:
  "\<exists>w'. intercept_call (example_retry None) transport
          (example_world
             (fails_then 2 (RpcError PERMISSION_DENIED ''denied'') (Response example_tasks)))
        = Some (Response example_tasks, w') \<and> slept w' = [1, 1] \<and> attempts w' = 3"
  using empty_retry_set_retries_every_failure
    [of "example_retry None"
        "example_world
           (fails_then 2 (RpcError PERMISSION_DENIED ''denied'') (Response example_tasks))"
        "RpcError PERMISSION_DENIED ''denied''" 2 example_tasks, THEN conjunct2, THEN conjunct1]
  by (auto simp add: example_retry_def example_world_def fails_then_def numeral_2_eq_2)

section \<open>Validation of the response header\<close>

lemma validate_response_iff:
  "(validate_response self rep name = Inr ()) =
   (receiver (reply.header rep) = name \<and>
    Some (sender (reply.header rep)) = aggregator_uuid self \<and>
    Some (MessageHeader.federation_uuid (reply.header rep)) = client.federation_uuid self \<and>
    MessageHeader.single_col_cert_common_name (reply.header rep) =
      or_empty (client.single_col_cert_common_name self))"
  by (auto simp add: validate_response_def check_equal_def)

lemma or_empty_case: "or_empty c = (case c of None \<Rightarrow> [] | Some s \<Rightarrow> s)"
  by (cases c) simp_all

text \<open>
  Claim C4 as stated fails where it says that the failure identifies the mismatched
  field: \<^verbatim>\<open>validate_response\<close> hands \<^verbatim>\<open>check_equal\<close> the two values and the
  logger, never the name of the field, so the error has no field. For a caller whose
  name is also the aggregator uuid, a valid header with its receiver replaced and the
  same header with its sender replaced fail with the same error.
\<close>

theorem header_mismatch_does_not_name_the_field:
  "validate_response example_twin_client example_twin_tasks ''collab-1'' = Inr () \<and>
   validate_response example_twin_client
     (example_twin_tasks
        \<lparr>reply.header := (reply.header example_twin_tasks)\<lparr>receiver := ''mallory''\<rparr>\<rparr>)
     ''collab-1'' =
     Inl (HeaderMismatchError None (Some ''collab-1'') (Some ''mallory'')) \<and>
   validate_response example_twin_client
     (example_twin_tasks
        \<lparr>reply.header := (reply.header example_twin_tasks)\<lparr>sender := ''mallory''\<rparr>\<rparr>)
     ''collab-1'' =
     Inl (HeaderMismatchError None (Some ''collab-1'') (Some ''mallory''))"
  by (simp add: validate_response_def check_equal_def example_twin_client_def
      example_twin_tasks_def example_client_def example_tasks_def)

text \<open>
  Claim C4, amended. Validation succeeds exactly when the receiver is the caller, the
  sender is the aggregator uuid, the federation uuid is the configured one and the
  common name is the configured one, or empty when none is configured. The checks are
  made in that order and the first that fails decides the error, which holds the
  expected and the actual value of that field and no field name. A valid header in
  which one field is replaced by another value fails with the expected value of that
  field and the value put in.
\<close>

theorem validate_response_checks_four_fields_in_order:
  "(validate_response self rep name = Inr () \<longleftrightarrow>
      receiver (reply.header rep) = name \<and>
      Some (sender (reply.header rep)) = aggregator_uuid self \<and>
      Some (MessageHeader.federation_uuid (reply.header rep)) = client.federation_uuid self \<and>
      MessageHeader.single_col_cert_common_name (reply.header rep) =
        (case client.single_col_cert_common_name self of None \<Rightarrow> [] | Some cn \<Rightarrow> cn)) \<and>
   (receiver (reply.header rep) \<noteq> name \<longrightarrow>
      validate_response self rep name =
        Inl (HeaderMismatchError None (Some name) (Some (receiver (reply.header rep))))) \<and>
   (receiver (reply.header rep) = name \<and>
    Some (sender (reply.header rep)) \<noteq> aggregator_uuid self \<longrightarrow>
      validate_response self rep name =
        Inl (HeaderMismatchError None (aggregator_uuid self)
               (Some (sender (reply.header rep))))) \<and>
   (receiver (reply.header rep) = name \<and>
    Some (sender (reply.header rep)) = aggregator_uuid self \<and>
    Some (MessageHeader.federation_uuid (reply.header rep)) \<noteq> client.federation_uuid self \<longrightarrow>
      validate_response self rep name =
        Inl (HeaderMismatchError None (client.federation_uuid self)
               (Some (MessageHeader.federation_uuid (reply.header rep))))) \<and>
   (receiver (reply.header rep) = name \<and>
    Some (sender (reply.header rep)) = aggregator_uuid self \<and>
    Some (MessageHeader.federation_uuid (reply.header rep)) = client.federation_uuid self \<and>
    MessageHeader.single_col_cert_common_name (reply.header rep) \<noteq>
      (case client.single_col_cert_common_name self of None \<Rightarrow> [] | Some cn \<Rightarrow> cn) \<longrightarrow>
      validate_response self rep name =
        Inl (HeaderMismatchError None
               (Some (case client.single_col_cert_common_name self of
                        None \<Rightarrow> [] | Some cn \<Rightarrow> cn))
               (Some (MessageHeader.single_col_cert_common_name (reply.header rep))))) \<and>
   (validate_response self rep name = Inr () \<longrightarrow>
      (x \<noteq> receiver (reply.header rep) \<longrightarrow>
         validate_response self (rep\<lparr>reply.header := (reply.header rep)\<lparr>receiver := x\<rparr>\<rparr>) name =
           Inl (HeaderMismatchError None (Some name) (Some x))) \<and>
      (x \<noteq> sender (reply.header rep) \<longrightarrow>
         validate_response self (rep\<lparr>reply.header := (reply.header rep)\<lparr>sender := x\<rparr>\<rparr>) name =
           Inl (HeaderMismatchError None (aggregator_uuid self) (Some x))) \<and>
      (x \<noteq> MessageHeader.federation_uuid (reply.header rep) \<longrightarrow>
         validate_response self
           (rep\<lparr>reply.header := (reply.header rep)\<lparr>MessageHeader.federation_uuid := x\<rparr>\<rparr>) name =
           Inl (HeaderMismatchError None (client.federation_uuid self) (Some x))) \<and>
      (x \<noteq> MessageHeader.single_col_cert_common_name (reply.header rep) \<longrightarrow>
         validate_response self
           (rep\<lparr>reply.header :=
                  (reply.header rep)\<lparr>MessageHeader.single_col_cert_common_name := x\<rparr>\<rparr>) name =
           Inl (HeaderMismatchError None
                  (Some (case client.single_col_cert_common_name self of
                           None \<Rightarrow> [] | Some cn \<Rightarrow> cn))
                  (Some x))))"
proof -
  have mutate: "validate_response self rep name = Inr () \<Longrightarrow>
      aggregator_uuid self = Some (sender (reply.header rep)) \<and>
      client.federation_uuid self = Some (MessageHeader.federation_uuid (reply.header rep)) \<and>
      or_empty (client.single_col_cert_common_name self) =
        MessageHeader.single_col_cert_common_name (reply.header rep) \<and>
      name = receiver (reply.header rep)"
    by (auto simp add: validate_response_iff)
  show ?thesis
    unfolding or_empty_case [symmetric]
    apply (intro conjI)
         apply (rule validate_response_iff)
        apply (simp add: validate_response_def check_equal_def)
       apply (simp add: validate_response_def check_equal_def)
      apply (simp add: validate_response_def check_equal_def)
     apply (simp add: validate_response_def check_equal_def)
    apply (rule impI)
    apply (drule mutate)
    apply (simp add: validate_response_def check_equal_def)
    done
qed

theorem validate_response_checks_four_fields_in_order_witness:
  "validate_response (example_client False) example_tasks ''collab-1'' = Inr () \<and>
   validate_response (example_client False)
     (example_tasks\<lparr>reply.header := (reply.header example_tasks)\<lparr>receiver := ''mallory''\<rparr>\<rparr>)
     ''collab-1'' = Inl (HeaderMismatchError None (Some ''collab-1'') (Some ''mallory'')) \<and>
   validate_response (example_client False)
     (example_tasks\<lparr>reply.header := (reply.header example_tasks)\<lparr>sender := ''mallory''\<rparr>\<rparr>)
     ''collab-1'' = Inl (HeaderMismatchError None (Some ''agg-uuid'') (Some ''mallory'')) \<and>
   validate_response (example_client False)
     (example_tasks\<lparr>reply.header :=
        (reply.header example_tasks)\<lparr>MessageHeader.federation_uuid := ''mallory''\<rparr>\<rparr>)
     ''collab-1'' = Inl (HeaderMismatchError None (Some ''fed-uuid'') (Some ''mallory'')) \<and>
   validate_response (example_client False)
     (example_tasks\<lparr>reply.header :=
        (reply.header example_tasks)\<lparr>MessageHeader.single_col_cert_common_name := ''mallory''\<rparr>\<rparr>)
     ''collab-1'' = Inl (HeaderMismatchError None (Some []) (Some ''mallory'')) \<and>
   validate_response example_named_client example_named_tasks ''collab-1'' = Inr () \<and>
   validate_response example_named_client example_tasks ''collab-1'' =
     Inl (HeaderMismatchError None (Some ''cn-1'') (Some [])) \<and>
   validate_response example_named_client
     (example_named_tasks\<lparr>reply.header :=
        (reply.header example_named_tasks)
          \<lparr>MessageHeader.single_col_cert_common_name := ''mallory''\<rparr>\<rparr>)
     ''collab-1'' = Inl (HeaderMismatchError None (Some ''cn-1'') (Some ''mallory''))"
  using validate_response_checks_four_fields_in_order
    [of "example_client False" example_tasks "''collab-1''" "''mallory''"]
    validate_response_checks_four_fields_in_order
    [of example_named_client example_named_tasks "''collab-1''" "''mallory''"]
    validate_response_checks_four_fields_in_order
    [of example_named_client example_tasks "''collab-1''" "''mallory''"]
  by (simp add: example_client_def example_tasks_def example_named_client_def
      example_named_tasks_def)

section \<open>Reconnecting, the shared body and the resend loop\<close>

lemma length_close: "length (close ch chans) = length chans"
  by (simp add: close_def)

lemma reconnect_Inr:
  assumes "fst (reconnect self w) = Inr ()"
  shows "\<exists>w1 ch. reconnect self w =
           (Inr (),
            self\<lparr>channel := length (channels w),
                 stub := \<lparr>stub_channel = length (channels w),
                          stub_interceptors = interceptors self\<rparr>\<rparr>, w1) \<and>
         server w1 = server w \<and> attempts w1 = attempts w \<and> slept w1 = slept w \<and>
         stdout w1 = stdout w \<and> files w1 = files w \<and>
         channels w1 = close (channel self) (channels w) @ [ch] \<and> is_open ch"
  using assms
  by (auto simp add: reconnect_def disconnect_def create_insecure_channel_def
        create_tls_channel_def new_channel_def world_defs length_close Let_def
      split: if_splits sum.splits prod.splits)

lemma reconnect_plaintext: "\<not> tls self \<Longrightarrow> fst (reconnect self w) = Inr ()"
  by (simp add: reconnect_def create_insecure_channel_def new_channel_def Let_def
      split: prod.splits)

lemma reconnect_client:
  "fst (snd (reconnect self w)) =
     self\<lparr>channel := channel (fst (snd (reconnect self w))),
          stub := stub (fst (snd (reconnect self w)))\<rparr>"
  by (auto simp add: reconnect_def create_insecure_channel_def
        create_tls_channel_def new_channel_def Let_def
      split: if_splits sum.splits prod.splits)

lemma validate_response_set_header [simp]:
  "validate_response (set_header self name) r n = validate_response self r n"
  by (simp add: validate_response_def set_header_def cong: sum.case_cong)

lemma answer_result_set_header [simp]:
  "answer_result (set_header self name) n ret x = answer_result self n ret x"
  by (cases x) simp_all

lemma stub_set_header [simp]: "stub (set_header self name) = stub self"
  by (simp add: set_header_def)

lemma set_header_twice [simp]: "set_header (set_header self name) name = set_header self name"
  by (simp add: set_header_def)

lemma stamp_call_validate_answer:
  "intercept_channel (stub_interceptors (stub self)) w = Some (x, w') \<Longrightarrow>
   stamp_call_validate self name ret w =
     Some (answer_result self name ret x, set_header self name, w')"
  by (cases x) (simp_all add: stamp_call_validate_def stub_call_def Let_def split: sum.splits)

lemma stamp_call_validate_Some:
  "stamp_call_validate self name ret w = Some (res, self', w') \<Longrightarrow>
   self' = set_header self name \<and>
   (\<exists>x. intercept_channel (stub_interceptors (stub self)) w = Some (x, w') \<and>
        res = answer_result self name ret x)"
  by (auto simp add: stamp_call_validate_def stub_call_def Let_def
      split: option.splits sum.splits outcome.splits)

lemma resend_step_return:
  "func self w = Some (Inr r, self1, w1) \<Longrightarrow>
   resend_data_on_reconnection func self w = Some (Inr r, self1, w1)"
  by (subst resend_data_on_reconnection.simps) simp

lemma resend_step_other:
  "func self w = Some (Inl x, self1, w1) \<Longrightarrow> \<forall>e. x \<noteq> Rpc e \<Longrightarrow>
   resend_data_on_reconnection func self w = Some (Inl x, self1, w1)"
  by (subst resend_data_on_reconnection.simps) (cases x; simp)

lemma resend_step_unauthenticated:
  "func self w = Some (Inl (Rpc e), self1, w1) \<Longrightarrow> code e = UNAUTHENTICATED \<Longrightarrow>
   resend_data_on_reconnection func self w = Some (Inl (Rpc e), self1, w1)"
  by (subst resend_data_on_reconnection.simps) simp

lemma resend_step_unknown:
  "func self w = Some (Inl (Rpc e), self1, w1) \<Longrightarrow> code e = UNKNOWN \<Longrightarrow>
   resend_data_on_reconnection func self w =
     resend_data_on_reconnection func self1
       (logger_info (''Attempting to resend data request to aggregator at '' @ uri self1) w1)"
  by (subst resend_data_on_reconnection.simps) simp

lemma resend_step_again:
  "func self w = Some (Inl (Rpc e), self1, w1) \<Longrightarrow> code e \<noteq> UNKNOWN \<Longrightarrow>
   code e \<noteq> UNAUTHENTICATED \<Longrightarrow>
   resend_data_on_reconnection func self w = resend_data_on_reconnection func self1 w1"
  by (subst resend_data_on_reconnection.simps) simp

lemma answer_result_settles:
  "settles x \<Longrightarrow>
   resend_data_on_reconnection func self w = Some (answer_result s name ret x, self1, w1)"
  if "func self w = Some (answer_result s name ret x, self1, w1)"
proof (cases x)
  case (Response r)
  show ?thesis
  proof (cases "validate_response s r name")
    case (Inl err)
    then have "\<forall>e. err \<noteq> Rpc e"
      by (auto simp add: validate_response_def check_equal_def
          split: sum.splits if_splits)
    with that Response Inl show ?thesis by (simp add: resend_step_other)
  next
    case (Inr u)
    with that Response show ?thesis by (simp add: resend_step_return)
  qed
next
  case (Failure e)
  assume "settles x"
  with that Failure show ?thesis by (simp add: resend_step_unauthenticated)
qed

lemma resend_settles:
  "(\<forall>k<N. \<not> settles (server w (attempts w + k))) \<Longrightarrow>
   settles (server w (attempts w + N)) \<Longrightarrow>
   passes (stub_interceptors (stub self)) (server w (attempts w + N)) \<Longrightarrow>
   \<exists>w'. resend_data_on_reconnection (\<lambda>s. stamp_call_validate s name ret) self w =
           Some (answer_result self name ret (server w (attempts w + N)),
                 set_header self name, w') \<and>
        attempts w' = attempts w + N + 1 \<and> same_outside w w'"
proof (induction N arbitrary: self w rule: less_induct)
  case (less N)
  let ?f = "\<lambda>s. stamp_call_validate s name ret"
  from intercept_channel_result[OF less.prems(3)]
  obtain k w1 where k: "k \<le> N"
    and c: "intercept_channel (stub_interceptors (stub self)) w =
              Some (server w (attempts w + k), w1)"
    and a1: "attempts w1 = attempts w + k + 1" and s1: "same_outside w w1"
    by blast
  have f: "?f self w =
      Some (answer_result self name ret (server w (attempts w + k)), set_header self name, w1)"
    using c by (rule stamp_call_validate_answer)
  show ?case
  proof (cases "k = N")
    case True
    with f less.prems(2)
    have "resend_data_on_reconnection ?f self w =
        Some (answer_result self name ret (server w (attempts w + N)), set_header self name, w1)"
      by (simp add: answer_result_settles)
    with a1 s1 True show ?thesis by simp
  next
    case False
    with k have kN: "k < N" by simp
    with less.prems(1) have ns: "\<not> settles (server w (attempts w + k))" by simp
    then obtain e where e: "server w (attempts w + k) = Failure e" "code e \<noteq> UNAUTHENTICATED"
      by (cases "server w (attempts w + k)") simp_all
    define w2 where "w2 =
      (if code e = UNKNOWN
       then logger_info (''Attempting to resend data request to aggregator at ''
              @ uri (set_header self name)) w1
       else w1)"
    have step: "resend_data_on_reconnection ?f self w =
                resend_data_on_reconnection ?f (set_header self name) w2"
      using f e by (cases "code e = UNKNOWN")
        (simp_all add: w2_def resend_step_unknown resend_step_again)
    have a2: "attempts w2 = attempts w + k + 1" and sv: "server w2 = server w"
      and s2: "same_outside w w2"
      using a1 s1 by (simp_all add: w2_def world_defs same_outside_def)
    have lt: "N - k - 1 < N" using kN by simp
    have p1: "\<forall>j<N - k - 1. \<not> settles (server w2 (attempts w2 + j))"
    proof (intro allI impI)
      fix j
      assume "j < N - k - 1"
      then have "k + 1 + j < N" by simp
      with less.prems(1) have "\<not> settles (server w (attempts w + (k + 1 + j)))"
        by blast
      then show "\<not> settles (server w2 (attempts w2 + j))"
        using a2 sv by (simp add: add.assoc)
    qed
    have eq: "attempts w2 + (N - k - 1) = attempts w + N"
      using a2 kN by simp
    have p2: "settles (server w2 (attempts w2 + (N - k - 1)))"
      using less.prems(2) sv eq by simp
    have p3: "passes (stub_interceptors (stub (set_header self name)))
                (server w2 (attempts w2 + (N - k - 1)))"
      using less.prems(3) sv eq by simp
    from less.IH[OF lt p1 p2 p3]
    obtain w' where r: "resend_data_on_reconnection ?f (set_header self name) w2 =
        Some (answer_result (set_header self name) name ret
                (server w2 (attempts w2 + (N - k - 1))),
              set_header (set_header self name) name, w')"
      and a': "attempts w' = attempts w2 + (N - k - 1) + 1"
      and s': "same_outside w2 w'"
      by blast
    have "resend_data_on_reconnection ?f self w =
        Some (answer_result self name ret (server w (attempts w + N)), set_header self name, w')"
      using step r sv eq by simp
    moreover have "attempts w' = attempts w + N + 1"
      using a' eq by simp
    moreover have "same_outside w w'"
      using s2 s' by (rule same_outside_trans)
    ultimately show ?thesis by blast
  qed
qed

lemma validate_response_fields:
  "aggregator_uuid a = aggregator_uuid b \<Longrightarrow>
   client.federation_uuid a = client.federation_uuid b \<Longrightarrow>
   client.single_col_cert_common_name a = client.single_col_cert_common_name b \<Longrightarrow>
   validate_response a r n = validate_response b r n"
  by (simp add: validate_response_def cong: sum.case_cong)

lemma answer_result_fields:
  "aggregator_uuid a = aggregator_uuid b \<Longrightarrow>
   client.federation_uuid a = client.federation_uuid b \<Longrightarrow>
   client.single_col_cert_common_name a = client.single_col_cert_common_name b \<Longrightarrow>
   answer_result a n ret x = answer_result b n ret x"
  by (cases x) (simp_all add: validate_response_fields[of a b])

lemma stamp_call_validate_pass:
  assumes "passes (stub_interceptors (stub self)) (server w (attempts w))"
  shows "\<exists>w'. stamp_call_validate self name ret w =
           Some (answer_result self name ret (server w (attempts w)), set_header self name, w') \<and>
         attempts w' = Suc (attempts w) \<and> slept w' = slept w \<and> same_outside w w'"
proof -
  from intercept_channel_pass[OF assms] obtain w' where
    "intercept_channel (stub_interceptors (stub self)) w = Some (server w (attempts w), w')"
    "attempts w' = Suc (attempts w)" "slept w' = slept w" "same_outside w w'"
    by blast
  then show ?thesis
    by (auto simp add: stamp_call_validate_answer)
qed

lemma disconnect_fields [simp]:
  "server (disconnect s w) = server w" "attempts (disconnect s w) = attempts w"
  "slept (disconnect s w) = slept w" "stdout (disconnect s w) = stdout w"
  "files (disconnect s w) = files w"
  "channels (disconnect s w) = close (channel s) (channels w)"
  by (simp_all add: disconnect_def world_defs Let_def)

text \<open>An operation that resends, when the next \<open>N\<close> answers do not settle the call.\<close>

lemma atomic_resend_settles:
  assumes rc: "fst (reconnect self w) = Inr ()"
    and ns: "\<forall>k<N. \<not> settles (server w (attempts w + k))"
    and st: "settles (server w (attempts w + N))"
    and ps: "passes (interceptors self) (server w (attempts w + N))"
  shows "\<exists>w'.
           atomic_connection
             (resend_data_on_reconnection (\<lambda>s. stamp_call_validate s name ret)) self w =
             Some (answer_result self name ret (server w (attempts w + N)),
                   set_header
                     (self\<lparr>channel := length (channels w),
                           stub := \<lparr>stub_channel = length (channels w),
                                    stub_interceptors = interceptors self\<rparr>\<rparr>) name, w') \<and>
           attempts w' = attempts w + N + 1 \<and> stdout w' = stdout w"
proof -
  let ?f = "resend_data_on_reconnection (\<lambda>s. stamp_call_validate s name ret)"
  from reconnect_Inr[OF rc] obtain w1 where
    r: "reconnect self w =
          (Inr (),
           self\<lparr>channel := length (channels w),
                stub := \<lparr>stub_channel = length (channels w),
                         stub_interceptors = interceptors self\<rparr>\<rparr>, w1)"
    and w1: "server w1 = server w" "attempts w1 = attempts w" "stdout w1 = stdout w"
    by blast
  let ?s1 = "self\<lparr>channel := length (channels w),
                 stub := \<lparr>stub_channel = length (channels w),
                          stub_interceptors = interceptors self\<rparr>\<rparr>"
  have "\<exists>w'. ?f ?s1 w1 =
           Some (answer_result ?s1 name ret (server w1 (attempts w1 + N)),
                 set_header ?s1 name, w') \<and>
         attempts w' = attempts w1 + N + 1 \<and> same_outside w1 w'"
    by (rule resend_settles) (use ns st ps w1 in simp_all)
  then obtain w2 where f: "?f ?s1 w1 =
      Some (answer_result ?s1 name ret (server w (attempts w + N)), set_header ?s1 name, w2)"
    and a2: "attempts w2 = attempts w + N + 1" and s2: "same_outside w1 w2"
    using w1 by auto
  have ar: "answer_result ?s1 name ret (server w (attempts w + N)) =
            answer_result self name ret (server w (attempts w + N))"
    by (rule answer_result_fields) simp_all
  show ?thesis
  proof (cases "answer_result self name ret (server w (attempts w + N))")
    case (Inl e)
    with r f ar a2 s2 w1 show ?thesis
      by (simp add: atomic_connection_def same_outside_def)
  next
    case (Inr v)
    with r f ar a2 s2 w1 show ?thesis
      by (simp add: atomic_connection_def same_outside_def)
  qed
qed

text \<open>An operation that resends, when the first answer settles the call.\<close>

lemma atomic_resend_first:
  assumes rc: "fst (reconnect self w) = Inr ()"
    and st: "settles (server w (attempts w))"
    and ps: "passes (interceptors self) (server w (attempts w))"
  shows "\<exists>w'.
           atomic_connection
             (resend_data_on_reconnection (\<lambda>s. stamp_call_validate s name ret)) self w =
             Some (answer_result self name ret (server w (attempts w)),
                   set_header
                     (self\<lparr>channel := length (channels w),
                           stub := \<lparr>stub_channel = length (channels w),
                                    stub_interceptors = interceptors self\<rparr>\<rparr>) name, w') \<and>
           attempts w' = Suc (attempts w) \<and> slept w' = slept w \<and> stdout w' = stdout w"
proof -
  let ?f = "resend_data_on_reconnection (\<lambda>s. stamp_call_validate s name ret)"
  from reconnect_Inr[OF rc] obtain w1 where
    r: "reconnect self w =
          (Inr (),
           self\<lparr>channel := length (channels w),
                stub := \<lparr>stub_channel = length (channels w),
                         stub_interceptors = interceptors self\<rparr>\<rparr>, w1)"
    and w1: "server w1 = server w" "attempts w1 = attempts w" "stdout w1 = stdout w"
      "slept w1 = slept w"
    by blast
  let ?s1 = "self\<lparr>channel := length (channels w),
                 stub := \<lparr>stub_channel = length (channels w),
                          stub_interceptors = interceptors self\<rparr>\<rparr>"
  have "passes (stub_interceptors (stub ?s1)) (server w1 (attempts w1))"
    using ps w1 by simp
  from stamp_call_validate_pass[OF this, of name ret] obtain w2 where
    b: "stamp_call_validate ?s1 name ret w1 =
          Some (answer_result ?s1 name ret (server w (attempts w)), set_header ?s1 name, w2)"
    and a2: "attempts w2 = Suc (attempts w)" and sl: "slept w2 = slept w"
    and s2: "same_outside w1 w2"
    using w1 by auto
  from b st have f: "?f ?s1 w1 =
      Some (answer_result ?s1 name ret (server w (attempts w)), set_header ?s1 name, w2)"
    by (simp add: answer_result_settles)
  have ar: "answer_result ?s1 name ret (server w (attempts w)) =
            answer_result self name ret (server w (attempts w))"
    by (rule answer_result_fields) simp_all
  show ?thesis
  proof (cases "answer_result self name ret (server w (attempts w))")
    case (Inl e)
    with r f ar a2 sl s2 w1 show ?thesis
      by (simp add: atomic_connection_def same_outside_def)
  next
    case (Inr v)
    with r f ar a2 sl s2 w1 show ?thesis
      by (simp add: atomic_connection_def same_outside_def)
  qed
qed

section \<open>Fetching the tasks\<close>

text \<open>
  Claim C9. Let the channel open. For every caller name, when the server answers the
  call with a response whose header names the caller as receiver, the aggregator uuid as
  sender, the federation uuid of the client and its common name (empty when none is
  configured), \<^verbatim>\<open>get_tasks\<close> returns the tasks, the round number, the sleep time and
  the quit flag of that response.
\<close>

theorem get_tasks_returns_the_response:
  assumes "fst (reconnect self w) = Inr ()"
    and "server w (attempts w) = Response r"
    and "receiver (reply.header r) = name"
    and "Some (sender (reply.header r)) = aggregator_uuid self"
    and "Some (MessageHeader.federation_uuid (reply.header r)) = client.federation_uuid self"
    and "MessageHeader.single_col_cert_common_name (reply.header r) =
           or_empty (client.single_col_cert_common_name self)"
  shows "\<exists>self' w'. get_tasks self name w =
           Some (Inr (tasks r, round_number r, sleep_time r, quit r), self', w')"
proof -
  have v: "validate_response self r name = Inr ()"
    using assms(3-6) by (simp add: validate_response_iff)
  have "settles (server w (attempts w))" "passes (interceptors self) (server w (attempts w))"
    using assms(2) by simp_all
  from atomic_resend_first[OF assms(1) this, of name
      "\<lambda>response. (tasks response, round_number response, sleep_time response, quit response)"]
  show ?thesis
    using assms(2) v by (auto simp add: get_tasks_def)
qed

theorem get_tasks_returns_the_response_witness:
  "\<exists>self' w'. get_tasks (example_client False) ''collab-1''
       (example_started (\<lambda>k. Response example_tasks)) =
     Some (Inr ([''train'', ''validate''], 3, 0, False), self', w')"
  using get_tasks_returns_the_response
    [of "example_client False" "example_started (\<lambda>k. Response example_tasks)" example_tasks
        "''collab-1''"]
  by (simp add: reconnect_plaintext example_client_def example_started_def example_tasks_def)

section \<open>Authentication failures\<close>

text \<open>
  Claim C8. Let the channel open, and let every interceptor of the client have a
  non-empty set of statuses to retry that does not hold the authentication failure
  (the client built by \<^verbatim>\<open>__init__\<close> has no interceptor or one that retries
  \<^verbatim>\<open>UNAVAILABLE\<close> alone). When the server answers the call of
  \<^verbatim>\<open>get_aggregated_tensor\<close> with an authentication failure, that failure is raised
  to the caller after this one attempt and without any backoff wait.
\<close>

theorem authentication_failure_is_raised_without_waiting:
  assumes "fst (reconnect self w) = Inr ()"
    and "\<forall>i\<in>set (interceptors self).
           truthy (status_for_retry i) \<and> UNAUTHENTICATED \<notin> members (status_for_retry i)"
    and "server w (attempts w) = Failure e"
    and "code e = UNAUTHENTICATED"
  shows "\<exists>self' w'.
           get_aggregated_tensor self name tensor_name round_no report tags require_lossless w =
             Some (Inl (Rpc e), self', w') \<and>
           slept w' = slept w \<and> attempts w' = Suc (attempts w)"
proof -
  have "settles (server w (attempts w))" "passes (interceptors self) (server w (attempts w))"
    using assms(2-4) by (simp_all add: list_all_iff retried_def)
  from atomic_resend_first[OF assms(1) this, of name "\<lambda>response. tensor response"]
  show ?thesis
    using assms(3) by (auto simp add: get_aggregated_tensor_def)
qed

theorem authentication_failure_is_raised_without_waiting_witness:
  "\<exists>self' w'.
     get_aggregated_tensor (example_client False) ''collab-1'' ''conv1'' 3 False [''trained'']
       True
       (example_started
          (\<lambda>k. Failure (RpcError UNAUTHENTICATED ''bad certificate'')
             :: string GetAggregatedTensorResponse outcome)) =
       Some (Inl (Rpc (RpcError UNAUTHENTICATED ''bad certificate'')), self', w') \<and>
     slept w' = [] \<and> attempts w' = 1"
  using authentication_failure_is_raised_without_waiting
    [of "example_client False"
        "example_started
           (\<lambda>k. Failure (RpcError UNAUTHENTICATED ''bad certificate'')
              :: string GetAggregatedTensorResponse outcome)"
        "RpcError UNAUTHENTICATED ''bad certificate''"
        "''collab-1''" "''conv1''" 3 False "[''trained'']" True]
  by (simp add: reconnect_plaintext example_client_def example_started_def example_retry_def)

section \<open>The operations that end the process\<close>

lemma stub_call_frame:
  "stub_call s w = Some (res, w') \<Longrightarrow> same_outside w w'"
  by (auto simp add: stub_call_def split: option.splits outcome.splits prod.splits
      dest: intercept_channel_frame)

lemma handle_atomic_raised:
  assumes rc: "fst (reconnect self w) = Inr ()"
    and sc: "stub_call (stub (fst (snd (reconnect self w)))) (snd (snd (reconnect self w))) =
               Some (Inl (Rpc e), w2)"
  shows "exits_reporting e w
           (handle_grpc_error (atomic_connection (\<lambda>s. stamp_call_validate s name ret)) self w)"
proof -
  from reconnect_Inr[OF rc] obtain s1 w1 where
    r: "reconnect self w = (Inr (), s1, w1)" and o: "stdout w1 = stdout w"
    by blast
  from sc r have sc1: "stub_call (stub s1) w1 = Some (Inl (Rpc e), w2)" by simp
  from stub_call_frame[OF sc1] o have "stdout w2 = stdout w"
    by (simp add: same_outside_def)
  with r sc1 show ?thesis
    by (simp add: exits_reporting_def handle_grpc_error_def atomic_connection_def
        stamp_call_validate_def error_line_def print_def Let_def)
qed

lemma handle_atomic_first:
  assumes rc: "fst (reconnect self w) = Inr ()"
    and f: "server w (attempts w) = Failure e"
    and p: "list_all (\<lambda>i. \<not> retried i e) (interceptors self)"
  shows "exits_reporting e w
           (handle_grpc_error (atomic_connection (\<lambda>s. stamp_call_validate s name ret)) self w) \<and>
         one_attempt_no_wait w
           (handle_grpc_error (atomic_connection (\<lambda>s. stamp_call_validate s name ret)) self w)"
proof -
  from reconnect_Inr[OF rc] obtain s1 w1 where
    r: "reconnect self w = (Inr (), s1, w1)"
    and s1: "s1 = self\<lparr>channel := length (channels w),
                        stub := \<lparr>stub_channel = length (channels w),
                                 stub_interceptors = interceptors self\<rparr>\<rparr>"
    and w1: "server w1 = server w" "attempts w1 = attempts w" "stdout w1 = stdout w"
      "slept w1 = slept w"
    by blast
  have "passes (stub_interceptors (stub s1)) (server w1 (attempts w1))"
    using p f w1 s1 by simp
  from stamp_call_validate_pass[OF this, of name ret] obtain w2 where
    b: "stamp_call_validate s1 name ret w1 = Some (Inl (Rpc e), set_header s1 name, w2)"
    and a2: "attempts w2 = Suc (attempts w)" and sl: "slept w2 = slept w"
    and s2: "same_outside w1 w2"
    using w1 f by auto
  with r w1 show ?thesis
    by (simp add: exits_reporting_def one_attempt_no_wait_def handle_grpc_error_def
        atomic_connection_def error_line_def print_def same_outside_def)
qed

lemma str_StatusCode_inj: "str_StatusCode c = str_StatusCode c' \<Longrightarrow> c = c'"
  by (cases c; cases c'; simp)

lemma error_line_inj: "error_line e = error_line e' \<Longrightarrow> e = e'"
proof (cases e; cases e')
  fix c d c' d'
  assume e: "e = RpcError c d" "e' = RpcError c' d'" and l: "error_line e = error_line e'"
  from l e have "str_StatusCode c @ ''. Details: '' @ d = str_StatusCode c' @ ''. Details: '' @ d'"
    by (simp add: error_line_def)
  then have "c = c' \<and> d = d'"
    by (cases c; cases c'; simp)
  with e show "e = e'" by simp
qed

lemma retries_then_passes:
  "(\<forall>k<N. \<exists>e. server w (attempts w + k) = Failure e \<and> retried self e) \<Longrightarrow>
   passes [self] (server w (attempts w + N)) \<Longrightarrow>
   \<exists>w'. intercept_call self transport w = Some (server w (attempts w + N), w') \<and>
        slept w' = slept w @ replicate N (reconnect_interval (sleeping_policy self)) \<and>
        attempts w' = attempts w + N + 1 \<and> same_outside w w'"
proof (induction N arbitrary: w)
  case 0
  from intercept_channel_pass[of "[self]" w] 0(2) show ?case by auto
next
  case (Suc N)
  from Suc.prems(1) obtain e where e: "server w (attempts w) = Failure e" "retried self e"
    by force
  define w1 where "w1 = w\<lparr>attempts := Suc (attempts w)\<rparr>"
  define w2 where
    "w2 = sleep (sleeping_policy self)
            (logger_info (''Response code: '' @ str_StatusCode (code e)) w1)"
  have t: "transport w = Some (Failure e, w1)"
    using e by (simp add: transport_def w1_def)
  have step: "intercept_call self transport w = intercept_call self transport w2"
    unfolding w2_def using t e(2) by (rule intercept_call_retry)
  have w2: "server w2 = server w" "attempts w2 = Suc (attempts w)"
    "slept w2 = slept w @ [reconnect_interval (sleeping_policy self)]"
    and s2: "same_outside w w2"
    by (simp_all add: w2_def w1_def world_defs same_outside_def)
  have "\<forall>k<N. \<exists>e. server w2 (attempts w2 + k) = Failure e \<and> retried self e"
    using Suc.prems(1) w2 by (metis add_Suc_shift Suc_less_eq)
  moreover have "passes [self] (server w2 (attempts w2 + N))"
    using Suc.prems(2) w2 by simp
  ultimately obtain w' where
    "intercept_call self transport w2 = Some (server w2 (attempts w2 + N), w')"
    "slept w' = slept w2 @ replicate N (reconnect_interval (sleeping_policy self))"
    "attempts w' = attempts w2 + N + 1" "same_outside w2 w'"
    using Suc.IH by blast
  then show ?case
    using step w2 s2 by (auto simp add: replicate_app_Cons_same intro: same_outside_trans)
qed

text \<open>
  An operation that does not resend, on a client with one interceptor that retries the
  next \<open>N\<close> answers and lets the answer after them pass.
\<close>

lemma atomic_body_after_retries:
  fixes w :: "'z reply_scheme world"
  assumes rc: "fst (reconnect self w) = Inr ()"
    and i: "interceptors self = [i]"
    and pre: "\<forall>k<N. \<exists>e. server w (attempts w + k) = Failure e \<and> retried i e"
    and fin: "passes [i] (server w (attempts w + N))"
  shows "\<exists>self' w'.
           atomic_connection (\<lambda>s. stamp_call_validate s name ret) self w =
             Some (answer_result self name ret (server w (attempts w + N)), self', w') \<and>
           attempts w' = attempts w + N + 1 \<and>
           slept w' = slept w @ replicate N (reconnect_interval (sleeping_policy i)) \<and>
           stdout w' = stdout w"
proof -
  from reconnect_Inr[OF rc] obtain w1 where
    r: "reconnect self w =
          (Inr (),
           self\<lparr>channel := length (channels w),
                stub := \<lparr>stub_channel = length (channels w),
                         stub_interceptors = interceptors self\<rparr>\<rparr>, w1)"
    and w1: "server w1 = server w" "attempts w1 = attempts w" "stdout w1 = stdout w"
      "slept w1 = slept w"
    by blast
  let ?s1 = "self\<lparr>channel := length (channels w),
                 stub := \<lparr>stub_channel = length (channels w),
                          stub_interceptors = interceptors self\<rparr>\<rparr>"
  have "\<exists>w'. intercept_call i transport w1 = Some (server w1 (attempts w1 + N), w') \<and>
        slept w' = slept w1 @ replicate N (reconnect_interval (sleeping_policy i)) \<and>
        attempts w' = attempts w1 + N + 1 \<and> same_outside w1 w'"
    by (rule retries_then_passes) (use pre fin w1 in simp_all)
  then obtain w2 where
    c: "intercept_channel (stub_interceptors (stub ?s1)) w1 =
          Some (server w (attempts w + N), w2)"
    and sl: "slept w2 = slept w @ replicate N (reconnect_interval (sleeping_policy i))"
    and a2: "attempts w2 = attempts w + N + 1" and s2: "same_outside w1 w2"
    using w1 i by auto
  from stamp_call_validate_answer[OF c, of name ret]
  have b: "stamp_call_validate ?s1 name ret w1 =
      Some (answer_result ?s1 name ret (server w (attempts w + N)), set_header ?s1 name, w2)" .
  have ar: "answer_result ?s1 name ret (server w (attempts w + N)) =
            answer_result self name ret (server w (attempts w + N))"
    by (rule answer_result_fields) simp_all
  show ?thesis
  proof (cases "answer_result self name ret (server w (attempts w + N))")
    case (Inl e)
    with r b ar a2 sl s2 w1 show ?thesis
      by (simp add: atomic_connection_def same_outside_def)
  next
    case (Inr v)
    with r b ar a2 sl s2 w1 show ?thesis
      by (simp add: atomic_connection_def same_outside_def)
  qed
qed

lemma handle_after_retries:
  fixes w :: "'z reply_scheme world"
  assumes rc: "fst (reconnect self w) = Inr ()"
    and i: "interceptors self = [i]"
    and pre: "\<forall>k<N. \<exists>e. server w (attempts w + k) = Failure e \<and> retried i e"
    and f: "server w (attempts w + N) = Failure e"
    and nr: "\<not> retried i e"
  shows "exits_reporting e w
           (handle_grpc_error (atomic_connection (\<lambda>s. stamp_call_validate s name ret)) self w) \<and>
         waits_and_attempts N (reconnect_interval (sleeping_policy i)) w
           (handle_grpc_error (atomic_connection (\<lambda>s. stamp_call_validate s name ret)) self w)"
proof -
  have "passes [i] (server w (attempts w + N))"
    using f nr by simp
  from atomic_body_after_retries[OF rc i pre this, of name ret] f
  show ?thesis
    by (auto simp add: exits_reporting_def waits_and_attempts_def handle_grpc_error_def
        error_line_def print_def)
qed

lemma handle_after_retries_response:
  fixes w :: "'z reply_scheme world"
  assumes rc: "fst (reconnect self w) = Inr ()"
    and i: "interceptors self = [i]"
    and pre: "\<forall>k<N. \<exists>e. server w (attempts w + k) = Failure e \<and> retried i e"
    and f: "server w (attempts w + N) = Response r"
    and v: "validate_response self r name = Inr ()"
  shows "\<exists>self' w'.
           handle_grpc_error (atomic_connection (\<lambda>s. stamp_call_validate s name ret)) self w =
             Some (Inr (ret r), self', w') \<and>
           attempts w' = attempts w + N + 1 \<and>
           slept w' = slept w @ replicate N (reconnect_interval (sleeping_policy i)) \<and>
           stdout w' = stdout w"
proof -
  have "passes [i] (server w (attempts w + N))"
    using f by simp
  from atomic_body_after_retries[OF rc i pre this, of name ret] f v
  show ?thesis
    by (auto simp add: handle_grpc_error_def)
qed

text \<open>
  Claim C7 as stated fails for the failures that the retry interceptor of the client
  retries. On the client that \<^verbatim>\<open>__init__\<close> builds without \<^verbatim>\<open>for_admin\<close>, the
  server answers \<^verbatim>\<open>connectivity_check\<close> with \<^verbatim>\<open>UNAVAILABLE\<close> and then with a
  response: the operation waits, calls again and returns; nothing is printed and the
  process does not exit.
\<close>

theorem unavailable_on_connectivity_check_is_retried:
  "map_option fst
     (connectivity_check (example_client False) ''collab-1''
        (example_started
           (fails_then 1 (RpcError UNAVAILABLE ''down'') (Response example_tasks)))) =
     Some (Inr ()) \<and>
   map_option (slept \<circ> snd \<circ> snd)
     (connectivity_check (example_client False) ''collab-1''
        (example_started
           (fails_then 1 (RpcError UNAVAILABLE ''down'') (Response example_tasks)))) =
     Some [1] \<and>
   map_option (attempts \<circ> snd \<circ> snd)
     (connectivity_check (example_client False) ''collab-1''
        (example_started
           (fails_then 1 (RpcError UNAVAILABLE ''down'') (Response example_tasks)))) =
     Some 2 \<and>
   map_option (stdout \<circ> snd \<circ> snd)
     (connectivity_check (example_client False) ''collab-1''
        (example_started
           (fails_then 1 (RpcError UNAVAILABLE ''down'') (Response example_tasks)))) =
     Some []"
proof -
  let ?c = "example_client False"
  let ?w = "example_started
              (fails_then 1 (RpcError UNAVAILABLE ''down'') (Response example_tasks))"
  have rc: "fst (reconnect ?c ?w) = Inr ()"
    by (simp add: reconnect_plaintext example_client_def)
  have i: "interceptors ?c = [example_retry (Some [UNAVAILABLE])]"
    by (simp add: example_client_def)
  have pre: "\<forall>k<1. \<exists>e. server ?w (attempts ?w + k) = Failure e \<and>
                retried (example_retry (Some [UNAVAILABLE])) e"
    by (simp add: example_started_def fails_then_def retried_def example_retry_def)
  have f: "server ?w (attempts ?w + 1) = Response example_tasks"
    by (simp add: example_started_def fails_then_def)
  have v: "validate_response ?c example_tasks ''collab-1'' = Inr ()"
    by (simp add: validate_response_iff example_client_def example_tasks_def)
  from handle_after_retries_response[OF rc i pre f v, of "\<lambda>response. ()"]
  show ?thesis
    by (auto simp add: connectivity_check_def example_started_def example_retry_def)
qed

text \<open>
  Claim C7, amended. Let the channel open. On \<^verbatim>\<open>connectivity_check\<close> and the four
  administrative operations, a transport failure that the call through the stub raises
  is printed with its status and its details, and the process exits: no error is
  returned to the caller. The failures raised are those that no interceptor of the
  client retries: on a client built with \<^verbatim>\<open>for_admin\<close>, which has no interceptor,
  every failure, and the operation exits after that one attempt and no wait; on a
  client with the retry interceptor, every failure whose status the interceptor does
  not retry, and the operation exits on the first of them, after one wait for each
  failure that the interceptor retried before it. The printed line tells the status and
  the details: two failures with the same line are the same.
\<close>

theorem raised_transport_failure_terminates_the_process:
  fixes w :: "'z reply_scheme world"
  assumes "fst (reconnect self w) = Inr ()"
  shows "(stub_call (stub (fst (snd (reconnect self w)))) (snd (snd (reconnect self w))) =
            Some (Inl (Rpc e), w2) \<longrightarrow>
          exits_reporting e w (connectivity_check self name w) \<and>
          exits_reporting e w (admin_add_collaborator self name col_label col_cn w) \<and>
          exits_reporting e w (admin_remove_collaborator self name col_label col_cn w) \<and>
          exits_reporting e w (admin_get_experiment_status convert self name w) \<and>
          exits_reporting e w (admin_set_straggler_cutoff_time self name timeout_in_seconds w)) \<and>
         (server w (attempts w) = Failure e \<and>
          list_all (\<lambda>i. \<not> retried i e) (interceptors self) \<longrightarrow>
          exits_reporting e w (connectivity_check self name w) \<and>
          one_attempt_no_wait w (connectivity_check self name w) \<and>
          exits_reporting e w (admin_add_collaborator self name col_label col_cn w) \<and>
          one_attempt_no_wait w (admin_add_collaborator self name col_label col_cn w) \<and>
          exits_reporting e w (admin_remove_collaborator self name col_label col_cn w) \<and>
          one_attempt_no_wait w (admin_remove_collaborator self name col_label col_cn w) \<and>
          exits_reporting e w (admin_get_experiment_status convert self name w) \<and>
          one_attempt_no_wait w (admin_get_experiment_status convert self name w) \<and>
          exits_reporting e w (admin_set_straggler_cutoff_time self name timeout_in_seconds w) \<and>
          one_attempt_no_wait w
            (admin_set_straggler_cutoff_time self name timeout_in_seconds w)) \<and>
         (interceptors self = [i] \<and>
          (\<forall>k<N. \<exists>e'. server w (attempts w + k) = Failure e' \<and> retried i e') \<and>
          server w (attempts w + N) = Failure e \<and> \<not> retried i e \<longrightarrow>
          exits_reporting e w (connectivity_check self name w) \<and>
          waits_and_attempts N (reconnect_interval (sleeping_policy i)) w
            (connectivity_check self name w) \<and>
          exits_reporting e w (admin_add_collaborator self name col_label col_cn w) \<and>
          waits_and_attempts N (reconnect_interval (sleeping_policy i)) w
            (admin_add_collaborator self name col_label col_cn w) \<and>
          exits_reporting e w (admin_remove_collaborator self name col_label col_cn w) \<and>
          waits_and_attempts N (reconnect_interval (sleeping_policy i)) w
            (admin_remove_collaborator self name col_label col_cn w) \<and>
          exits_reporting e w (admin_get_experiment_status convert self name w) \<and>
          waits_and_attempts N (reconnect_interval (sleeping_policy i)) w
            (admin_get_experiment_status convert self name w) \<and>
          exits_reporting e w (admin_set_straggler_cutoff_time self name timeout_in_seconds w) \<and>
          waits_and_attempts N (reconnect_interval (sleeping_policy i)) w
            (admin_set_straggler_cutoff_time self name timeout_in_seconds w)) \<and>
         (error_line e = error_line e' \<longrightarrow> e = e')"
proof (intro conjI impI)
  assume sc: "stub_call (stub (fst (snd (reconnect self w)))) (snd (snd (reconnect self w))) =
                Some (Inl (Rpc e), w2)"
  show "exits_reporting e w (connectivity_check self name w)"
    unfolding connectivity_check_def by (rule handle_atomic_raised[OF assms sc])
  show "exits_reporting e w (admin_add_collaborator self name col_label col_cn w)"
    unfolding admin_add_collaborator_def by (rule handle_atomic_raised[OF assms sc])
  show "exits_reporting e w (admin_remove_collaborator self name col_label col_cn w)"
    unfolding admin_remove_collaborator_def by (rule handle_atomic_raised[OF assms sc])
  show "exits_reporting e w (admin_get_experiment_status convert self name w)"
    unfolding admin_get_experiment_status_def by (rule handle_atomic_raised[OF assms sc])
  show "exits_reporting e w (admin_set_straggler_cutoff_time self name timeout_in_seconds w)"
    unfolding admin_set_straggler_cutoff_time_def by (rule handle_atomic_raised[OF assms sc])
next
  assume h: "server w (attempts w) = Failure e \<and>
             list_all (\<lambda>i. \<not> retried i e) (interceptors self)"
  note first = handle_atomic_first[OF assms conjunct1[OF h] conjunct2[OF h]]
  show "exits_reporting e w (connectivity_check self name w)"
    unfolding connectivity_check_def using first by blast
  show "one_attempt_no_wait w (connectivity_check self name w)"
    unfolding connectivity_check_def using first by blast
  show "exits_reporting e w (admin_add_collaborator self name col_label col_cn w)"
    unfolding admin_add_collaborator_def using first by blast
  show "one_attempt_no_wait w (admin_add_collaborator self name col_label col_cn w)"
    unfolding admin_add_collaborator_def using first by blast
  show "exits_reporting e w (admin_remove_collaborator self name col_label col_cn w)"
    unfolding admin_remove_collaborator_def using first by blast
  show "one_attempt_no_wait w (admin_remove_collaborator self name col_label col_cn w)"
    unfolding admin_remove_collaborator_def using first by blast
  show "exits_reporting e w (admin_get_experiment_status convert self name w)"
    unfolding admin_get_experiment_status_def using first by blast
  show "one_attempt_no_wait w (admin_get_experiment_status convert self name w)"
    unfolding admin_get_experiment_status_def using first by blast
  show "exits_reporting e w (admin_set_straggler_cutoff_time self name timeout_in_seconds w)"
    unfolding admin_set_straggler_cutoff_time_def using first by blast
  show "one_attempt_no_wait w (admin_set_straggler_cutoff_time self name timeout_in_seconds w)"
    unfolding admin_set_straggler_cutoff_time_def using first by blast
next
  assume h: "interceptors self = [i] \<and>
      (\<forall>k<N. \<exists>e'. server w (attempts w + k) = Failure e' \<and> retried i e') \<and>
      server w (attempts w + N) = Failure e \<and> \<not> retried i e"
  then have h1: "interceptors self = [i]"
    and h2: "\<forall>k<N. \<exists>e'. server w (attempts w + k) = Failure e' \<and> retried i e'"
    and h3: "server w (attempts w + N) = Failure e" and h4: "\<not> retried i e"
    by blast+
  note later = handle_after_retries[OF assms h1 h2 h3 h4]
  show "exits_reporting e w (connectivity_check self name w)"
    unfolding connectivity_check_def using later by blast
  show "waits_and_attempts N (reconnect_interval (sleeping_policy i)) w
          (connectivity_check self name w)"
    unfolding connectivity_check_def using later by blast
  show "exits_reporting e w (admin_add_collaborator self name col_label col_cn w)"
    unfolding admin_add_collaborator_def using later by blast
  show "waits_and_attempts N (reconnect_interval (sleeping_policy i)) w
          (admin_add_collaborator self name col_label col_cn w)"
    unfolding admin_add_collaborator_def using later by blast
  show "exits_reporting e w (admin_remove_collaborator self name col_label col_cn w)"
    unfolding admin_remove_collaborator_def using later by blast
  show "waits_and_attempts N (reconnect_interval (sleeping_policy i)) w
          (admin_remove_collaborator self name col_label col_cn w)"
    unfolding admin_remove_collaborator_def using later by blast
  show "exits_reporting e w (admin_get_experiment_status convert self name w)"
    unfolding admin_get_experiment_status_def using later by blast
  show "waits_and_attempts N (reconnect_interval (sleeping_policy i)) w
          (admin_get_experiment_status convert self name w)"
    unfolding admin_get_experiment_status_def using later by blast
  show "exits_reporting e w (admin_set_straggler_cutoff_time self name timeout_in_seconds w)"
    unfolding admin_set_straggler_cutoff_time_def using later by blast
  show "waits_and_attempts N (reconnect_interval (sleeping_policy i)) w
          (admin_set_straggler_cutoff_time self name timeout_in_seconds w)"
    unfolding admin_set_straggler_cutoff_time_def using later by blast
next
  assume "error_line e = error_line e'"
  then show "e = e'" by (rule error_line_inj)
qed

theorem raised_transport_failure_terminates_the_process_witness:
  "map_option fst
     (connectivity_check (example_client True) ''admin''
        (example_started
           (fails_then 1 (RpcError PERMISSION_DENIED ''denied'') (Response example_tasks)))) =
     Some (Inl (SystemExit 1)) \<and>
   map_option (stdout \<circ> snd \<circ> snd)
     (connectivity_check (example_client True) ''admin''
        (example_started
           (fails_then 1 (RpcError PERMISSION_DENIED ''denied'') (Response example_tasks)))) =
     Some [''gRPC Error: StatusCode.PERMISSION_DENIED. Details: denied''] \<and>
   one_attempt_no_wait
     (example_started (fails_then 1 (RpcError PERMISSION_DENIED ''denied'') (Response example_tasks)))
     (connectivity_check (example_client True) ''admin''
        (example_started
           (fails_then 1 (RpcError PERMISSION_DENIED ''denied'') (Response example_tasks)))) \<and>
   exits_reporting (RpcError PERMISSION_DENIED ''denied'')
     (example_started (fails_then 1 (RpcError PERMISSION_DENIED ''denied'') (Response example_tasks)))
     (admin_get_experiment_status round_number (example_client True) ''admin''
        (example_started
           (fails_then 1 (RpcError PERMISSION_DENIED ''denied'') (Response example_tasks)))) \<and>
   map_option fst
     (connectivity_check (example_client False) ''collab-1''
        (example_started
           (fails_then 1 (RpcError UNAVAILABLE ''down'')
              (Failure (RpcError INTERNAL ''broken'') :: GetTasksResponse outcome)))) =
     Some (Inl (SystemExit 1)) \<and>
   map_option (stdout \<circ> snd \<circ> snd)
     (connectivity_check (example_client False) ''collab-1''
        (example_started
           (fails_then 1 (RpcError UNAVAILABLE ''down'')
              (Failure (RpcError INTERNAL ''broken'') :: GetTasksResponse outcome)))) =
     Some [''gRPC Error: StatusCode.INTERNAL. Details: broken''] \<and>
   map_option (slept \<circ> snd \<circ> snd)
     (connectivity_check (example_client False) ''collab-1''
        (example_started
           (fails_then 1 (RpcError UNAVAILABLE ''down'')
              (Failure (RpcError INTERNAL ''broken'') :: GetTasksResponse outcome)))) =
     Some [1] \<and>
   map_option (attempts \<circ> snd \<circ> snd)
     (connectivity_check (example_client False) ''collab-1''
        (example_started
           (fails_then 1 (RpcError UNAVAILABLE ''down'')
              (Failure (RpcError INTERNAL ''broken'') :: GetTasksResponse outcome)))) =
     Some 2"
proof -
  let ?e = "RpcError PERMISSION_DENIED ''denied''"
  let ?c = "example_client True"
  let ?w = "example_started (fails_then 1 ?e (Response example_tasks))"
  have rc: "fst (reconnect ?c ?w) = Inr ()"
    by (simp add: reconnect_plaintext example_client_def)
  from reconnect_Inr[OF rc] obtain c1 w1 where
    r: "reconnect ?c ?w = (Inr (), c1, w1)" and i: "stub_interceptors (stub c1) = []"
    and sv: "server w1 = server ?w" "attempts w1 = attempts ?w"
    by (auto simp add: example_client_def)
  have "\<exists>w2. stub_call (stub c1) w1 = Some (Inl (Rpc ?e), w2)"
    using i sv by (simp add: stub_call_def transport_def example_started_def fails_then_def)
  then obtain w2 where
    sc: "stub_call (stub (fst (snd (reconnect ?c ?w)))) (snd (snd (reconnect ?c ?w))) =
           Some (Inl (Rpc ?e), w2)"
    using r by auto
  have h: "server ?w (attempts ?w) = Failure ?e \<and>
           list_all (\<lambda>i. \<not> retried i ?e) (interceptors ?c)"
    by (simp add: example_started_def fails_then_def example_client_def)
  from raised_transport_failure_terminates_the_process
         [OF rc, of ?e w2 "''admin''" "''label''" "''cn''" round_number 60] sc h
  have a: "exits_reporting ?e ?w (connectivity_check ?c ''admin'' ?w)"
    "one_attempt_no_wait ?w (connectivity_check ?c ''admin'' ?w)"
    "exits_reporting ?e ?w (admin_get_experiment_status round_number ?c ''admin'' ?w)"
    by blast+
  let ?f = "RpcError INTERNAL ''broken''"
  let ?d = "example_client False"
  let ?i = "example_retry (Some [UNAVAILABLE])"
  let ?v = "example_started (fails_then 1 (RpcError UNAVAILABLE ''down'') (Failure ?f))
              :: GetTasksResponse world"
  have rd: "fst (reconnect ?d ?v) = Inr ()"
    by (simp add: reconnect_plaintext example_client_def)
  have g: "interceptors ?d = [?i] \<and>
      (\<forall>k<1. \<exists>e'. server ?v (attempts ?v + k) = Failure e' \<and> retried ?i e') \<and>
      server ?v (attempts ?v + 1) = Failure ?f \<and> \<not> retried ?i ?f"
    by (simp add: example_client_def example_started_def fails_then_def retried_def
        example_retry_def)
  from raised_transport_failure_terminates_the_process
         [OF rd, of ?f _ "''collab-1''" "''label''" "''cn''" round_number 60 ?i 1] g
  have b: "exits_reporting ?f ?v (connectivity_check ?d ''collab-1'' ?v)"
    "waits_and_attempts 1 (reconnect_interval (sleeping_policy ?i)) ?v
       (connectivity_check ?d ''collab-1'' ?v)"
    by blast+
  from a(1) have a1: "map_option fst (connectivity_check ?c ''admin'' ?w) =
      Some (Inl (SystemExit 1))"
    "map_option (stdout \<circ> snd \<circ> snd) (connectivity_check ?c ''admin'' ?w) =
      Some [''gRPC Error: StatusCode.PERMISSION_DENIED. Details: denied'']"
    by (auto simp add: exits_reporting_def error_line_def example_started_def
        split: option.splits)
  from b have b1: "map_option fst (connectivity_check ?d ''collab-1'' ?v) =
      Some (Inl (SystemExit 1))"
    "map_option (stdout \<circ> snd \<circ> snd) (connectivity_check ?d ''collab-1'' ?v) =
      Some [''gRPC Error: StatusCode.INTERNAL. Details: broken'']"
    "map_option (slept \<circ> snd \<circ> snd) (connectivity_check ?d ''collab-1'' ?v) = Some [1]"
    "map_option (attempts \<circ> snd \<circ> snd) (connectivity_check ?d ''collab-1'' ?v) = Some 2"
    by (auto simp add: exits_reporting_def waits_and_attempts_def error_line_def
        example_started_def example_retry_def split: option.splits)
  from a a1 b1 show ?thesis by blast
qed

section \<open>Opening a channel in plaintext mode\<close>

lemma init_example:
  "init ''localhost'' ''50051'' False False None None None (Some ''agg-uuid'')
     (Some ''fed-uuid'') None for_admin None (example_world srv) =
   (Inr (example_client for_admin), example_started srv)"
  by (simp add: init_def create_insecure_channel_def new_channel_def logger_warn_def
      example_world_def example_client_def example_started_def example_retry_def Let_def)

text \<open>
  Claim C5, evaluated where the code departs from it. A client is constructed in
  plaintext mode: the channel opens and the warning is logged once. The client then
  reconnects: a second channel opens, also without error, but no second warning is
  logged. After two opens the log holds one insecure-channel warning.
\<close>

theorem reconnect_in_plaintext_logs_no_warning:
  "init ''localhost'' ''50051'' False False None None None (Some ''agg-uuid'')
     (Some ''fed-uuid'') None False None
     (example_world (fails_then 0 (RpcError UNKNOWN []) (Response example_tasks))) =
     (Inr (example_client False),
      example_started (fails_then 0 (RpcError UNKNOWN []) (Response example_tasks))) \<and>
   length (channels
     (example_started (fails_then 0 (RpcError UNKNOWN []) (Response example_tasks)))) = 1 \<and>
   count_list
     (logged (example_started (fails_then 0 (RpcError UNKNOWN []) (Response example_tasks))))
     (WARNING, ''gRPC is running on insecure channel with TLS disabled.'') = 1 \<and>
   fst (reconnect (example_client False)
     (example_started (fails_then 0 (RpcError UNKNOWN []) (Response example_tasks)))) = Inr () \<and>
   length (channels (snd (snd (reconnect (example_client False)
     (example_started (fails_then 0 (RpcError UNKNOWN []) (Response example_tasks))))))) = 2 \<and>
   count_list
     (logged (snd (snd (reconnect (example_client False)
        (example_started (fails_then 0 (RpcError UNKNOWN []) (Response example_tasks)))))))
     (WARNING, ''gRPC is running on insecure channel with TLS disabled.'') = 1 \<and>
   map fst
     (logged (snd (snd (reconnect (example_client False)
        (example_started (fails_then 0 (RpcError UNKNOWN []) (Response example_tasks))))))) =
     [WARNING, DEBUG, DEBUG]"
  by (simp add: init_example reconnect_def disconnect_def create_insecure_channel_def
      new_channel_def close_def logger_debug_def example_client_def example_started_def
      Let_def)

section \<open>What an operation leaves behind\<close>

text \<open>The ways in which one round of the resend loop ends.\<close>

lemma resend_body_cases:
  assumes "(case res of
              Inl x \<Rightarrow>
                (case x of
                   Rpc e \<Rightarrow>
                     if code e = UNKNOWN then A
                     else if code e = UNAUTHENTICATED then Some (Inl x, s1, w1)
                     else B
                 | _ \<Rightarrow> Some (Inl x, s1, w1))
            | Inr response \<Rightarrow> Some (Inr response, s1, w1)) = Some y"
  shows "(y = (res, s1, w1) \<and> (\<forall>e. res = Inl (Rpc e) \<longrightarrow> code e = UNAUTHENTICATED)) \<or>
         A = Some y \<or> B = Some y"
proof (cases res)
  case (Inr r)
  with assms show ?thesis by auto
next
  case (Inl x)
  show ?thesis
  proof (cases x)
    case (Rpc e)
    with assms Inl show ?thesis
      by (cases "code e = UNKNOWN"; cases "code e = UNAUTHENTICATED") auto
  next
    case (HeaderMismatchError fld a b)
    with assms Inl show ?thesis by auto
  next
    case (OSError p)
    with assms Inl show ?thesis by auto
  next
    case TypeError
    with assms Inl show ?thesis by auto
  next
    case (SystemExit n)
    with assms Inl show ?thesis by auto
  qed
qed

text \<open>
  The resend loop keeps every relation between the state it starts in and the state it
  ends in that each call of the function keeps, that logging keeps and that is
  transitive.
\<close>

lemma resend_invariant:
  fixes func :: "client \<Rightarrow> 'r world \<Rightarrow> ((exn + 'a) \<times> client \<times> 'r world) option"
  assumes step: "\<And>s w res s' w'. func s w = Some (res, s', w') \<Longrightarrow> R (s, w) (s', w')"
    and log: "\<And>s w m. R (s, w) (s, logger_info m w)"
    and trans: "\<And>a b c. R a b \<Longrightarrow> R b c \<Longrightarrow> R a c"
    and r: "resend_data_on_reconnection func self w = Some (res, self', w')"
  shows "R (self, w) (self', w')"
proof -
  have "f = func \<longrightarrow> R (s, v) (snd y)"
    if "resend_data_on_reconnection f s v = Some y" for f s v y
  proof (rule resend_data_on_reconnection.raw_induct
      [where P = "\<lambda>f s v y. f = func \<longrightarrow> R (s, v) (snd y)", OF _ that])
    fix rs :: "(client \<Rightarrow> 'r world \<Rightarrow> ((exn + 'a) \<times> client \<times> 'r world) option) \<Rightarrow>
               client \<Rightarrow> 'r world \<Rightarrow> ((exn + 'a) \<times> client \<times> 'r world) option"
    fix f s v y
    assume IH: "\<And>f s v y. rs f s v = Some y \<Longrightarrow> f = func \<longrightarrow> R (s, v) (snd y)"
    assume body: "(case f s v of None \<Rightarrow> None
      | Some (res, self1, w1) \<Rightarrow>
          (case res of
             Inl x \<Rightarrow>
               (case x of
                  Rpc e \<Rightarrow>
                    if code e = UNKNOWN then
                      rs f self1
                        (logger_info (''Attempting to resend data request to aggregator at ''
                                        @ uri self1) w1)
                    else if code e = UNAUTHENTICATED then Some (Inl x, self1, w1)
                    else rs f self1 w1
                | _ \<Rightarrow> Some (Inl x, self1, w1))
           | Inr response \<Rightarrow> Some (Inr response, self1, w1))) = Some y"
    show "f = func \<longrightarrow> R (s, v) (snd y)"
    proof
      assume ff: "f = func"
      from body obtain res1 s1 w1 where fs: "f s v = Some (res1, s1, w1)"
        by (auto split: option.splits)
      with ff step have R1: "R (s, v) (s1, w1)" by blast
      let ?w1' = "logger_info (''Attempting to resend data request to aggregator at ''
                                 @ uri s1) w1"
      have R2: "R (s, v) (s1, ?w1')"
        using R1 log trans by blast
      from body fs have "(case res1 of
              Inl x \<Rightarrow>
                (case x of
                   Rpc e \<Rightarrow>
                     if code e = UNKNOWN then rs f s1 ?w1'
                     else if code e = UNAUTHENTICATED then Some (Inl x, s1, w1)
                     else rs f s1 w1
                 | _ \<Rightarrow> Some (Inl x, s1, w1))
            | Inr response \<Rightarrow> Some (Inr response, s1, w1)) = Some y"
        by simp
      from resend_body_cases[OF this]
      consider (ret) "y = (res1, s1, w1)" | (unk) "rs f s1 ?w1' = Some y" | (again) "rs f s1 w1 = Some y"
        by blast
      then show "R (s, v) (snd y)"
      proof cases
        case ret
        with R1 show ?thesis by simp
      next
        case unk
        from IH[OF this] ff have "R (s1, ?w1') (snd y)" by simp
        with R2 trans show ?thesis by blast
      next
        case again
        from IH[OF this] ff have "R (s1, w1) (snd y)" by simp
        with R1 trans show ?thesis by blast
      qed
    qed
  qed
  from this[OF r] show ?thesis by simp
qed

lemma resend_raises_only_unauthenticated:
  fixes func :: "client \<Rightarrow> 'r world \<Rightarrow> ((exn + 'a) \<times> client \<times> 'r world) option"
  shows "raises_only_unauthenticated (resend_data_on_reconnection func self w)"
proof (cases "resend_data_on_reconnection func self w")
  case None
  then show ?thesis by (simp add: raises_only_unauthenticated_def)
next
  case (Some y)
  have "\<forall>e. fst y = Inl (Rpc e) \<longrightarrow> code e = UNAUTHENTICATED"
  proof (rule resend_data_on_reconnection.raw_induct
      [where P = "\<lambda>f s v y. \<forall>e. fst y = Inl (Rpc e) \<longrightarrow> code e = UNAUTHENTICATED",
       OF _ Some])
    fix rs :: "(client \<Rightarrow> 'r world \<Rightarrow> ((exn + 'a) \<times> client \<times> 'r world) option) \<Rightarrow>
               client \<Rightarrow> 'r world \<Rightarrow> ((exn + 'a) \<times> client \<times> 'r world) option"
    fix f s v y
    assume IH: "\<And>f s v y. rs f s v = Some y \<Longrightarrow>
                 \<forall>e. fst y = Inl (Rpc e) \<longrightarrow> code e = UNAUTHENTICATED"
    assume body: "(case f s v of None \<Rightarrow> None
      | Some (res, self1, w1) \<Rightarrow>
          (case res of
             Inl x \<Rightarrow>
               (case x of
                  Rpc e \<Rightarrow>
                    if code e = UNKNOWN then
                      rs f self1
                        (logger_info (''Attempting to resend data request to aggregator at ''
                                        @ uri self1) w1)
                    else if code e = UNAUTHENTICATED then Some (Inl x, self1, w1)
                    else rs f self1 w1
                | _ \<Rightarrow> Some (Inl x, self1, w1))
           | Inr response \<Rightarrow> Some (Inr response, self1, w1))) = Some y"
    from body obtain res1 s1 w1 where fs: "f s v = Some (res1, s1, w1)"
      by (auto split: option.splits)
    let ?w1' = "logger_info (''Attempting to resend data request to aggregator at ''
                               @ uri s1) w1"
    from body fs have "(case res1 of
            Inl x \<Rightarrow>
              (case x of
                 Rpc e \<Rightarrow>
                   if code e = UNKNOWN then rs f s1 ?w1'
                   else if code e = UNAUTHENTICATED then Some (Inl x, s1, w1)
                   else rs f s1 w1
               | _ \<Rightarrow> Some (Inl x, s1, w1))
          | Inr response \<Rightarrow> Some (Inr response, s1, w1)) = Some y"
      by simp
    from resend_body_cases[OF this]
    consider (ret) "y = (res1, s1, w1)" "\<forall>e. res1 = Inl (Rpc e) \<longrightarrow> code e = UNAUTHENTICATED"
      | (unk) "rs f s1 ?w1' = Some y" | (again) "rs f s1 w1 = Some y"
      by blast
    then show "\<forall>e. fst y = Inl (Rpc e) \<longrightarrow> code e = UNAUTHENTICATED"
    proof cases
      case ret
      then show ?thesis by simp
    next
      case unk
      from IH[OF this] show ?thesis .
    next
      case again
      from IH[OF this] show ?thesis .
    qed
  qed
  with Some show ?thesis
    by (auto simp add: raises_only_unauthenticated_def split: sum.splits exn.splits)
qed

lemma header_only:
  "a\<lparr>header := None\<rparr> = b\<lparr>header := None\<rparr> \<Longrightarrow> a = b\<lparr>header := header a\<rparr>"
  by (cases a, cases b) simp

lemma stamp_call_validate_frame:
  assumes "stamp_call_validate s name ret w = Some (res, s', w')"
  shows "s'\<lparr>header := None\<rparr> = s\<lparr>header := None\<rparr> \<and> same_outside w w'"
proof -
  from stamp_call_validate_Some[OF assms] obtain x where
    "s' = set_header s name" "intercept_channel (stub_interceptors (stub s)) w = Some (x, w')"
    by blast
  then show ?thesis
    by (simp add: set_header_def intercept_channel_frame)
qed

lemma resend_body_frame:
  fixes w :: "'z reply_scheme world"
  assumes "resend_data_on_reconnection (\<lambda>s. stamp_call_validate s name ret) self w =
             Some (res, self', w')"
  shows "self'\<lparr>header := None\<rparr> = self\<lparr>header := None\<rparr> \<and> same_outside w w'"
proof -
  let ?R = "\<lambda>(a :: client \<times> 'z reply_scheme world) (b :: client \<times> 'z reply_scheme world).
              (fst b)\<lparr>header := None\<rparr> = (fst a)\<lparr>header := None\<rparr> \<and> same_outside (snd a) (snd b)"
  have "?R (self, w) (self', w')"
  proof (rule resend_invariant[where R = ?R and func = "\<lambda>s. stamp_call_validate s name ret",
        OF _ _ _ assms])
    show "\<And>s w res s' w'. stamp_call_validate s name ret w = Some (res, s', w') \<Longrightarrow>
            ?R (s, w) (s', w')"
      using stamp_call_validate_frame by fastforce
    show "\<And>s w m. ?R (s, w) (s, logger_info m w)"
      by (simp add: same_outside_log)
    show "\<And>a b c. ?R a b \<Longrightarrow> ?R b c \<Longrightarrow> ?R a c"
      by (auto intro: same_outside_trans)
  qed
  then show ?thesis by simp
qed

lemma reconnect_error_not_Rpc: "fst (reconnect self w) \<noteq> Inl (Rpc e)"
  by (auto simp add: reconnect_def create_insecure_channel_def create_tls_channel_def
        new_channel_def read_file_def Let_def
      split: if_splits sum.splits prod.splits option.splits)

lemma atomic_keeps_config:
  assumes frame: "\<And>s w res s' w'. func s w = Some (res, s', w') \<Longrightarrow>
                    s'\<lparr>header := None\<rparr> = s\<lparr>header := None\<rparr>"
  shows "keeps_config self (atomic_connection func self w)"
proof -
  obtain x s1 w1 where r: "reconnect self w = (x, s1, w1)"
    by (cases "reconnect self w") auto
  from reconnect_client[of self w] r
  have s1: "s1 = self\<lparr>channel := channel s1, stub := stub s1\<rparr>" by simp
  show ?thesis
  proof (cases x)
    case (Inl e)
    from s1 have "s1 = self\<lparr>channel := channel s1, header := header s1, stub := stub s1\<rparr>"
      by (cases self, cases s1) simp
    with r Inl show ?thesis
      by (simp add: keeps_config_def atomic_connection_def)
  next
    case (Inr u)
    show ?thesis
    proof (cases "func s1 w1")
      case None
      with r Inr show ?thesis by (simp add: keeps_config_def atomic_connection_def)
    next
      case (Some y)
      obtain res s2 w2 where y: "y = (res, s2, w2)" by (cases y) auto
      from frame Some y have "s2\<lparr>header := None\<rparr> = s1\<lparr>header := None\<rparr>" by blast
      then have "s2 = s1\<lparr>header := header s2\<rparr>" by (rule header_only)
      with s1 have "s2 = self\<lparr>channel := channel s2, header := header s2, stub := stub s2\<rparr>"
        by (cases self, cases s1, cases s2) simp
      with r Inr Some y show ?thesis
        by (cases res) (simp_all add: keeps_config_def atomic_connection_def)
    qed
  qed
qed

lemma handle_keeps_config:
  "keeps_config self (func self w) \<Longrightarrow> keeps_config self (handle_grpc_error func self w)"
  by (auto simp add: keeps_config_def handle_grpc_error_def
      split: option.splits sum.splits exn.splits)




lemma atomic_resend_raises_only_unauthenticated:
  fixes func :: "client \<Rightarrow> 'r world \<Rightarrow> ((exn + 'a) \<times> client \<times> 'r world) option"
  shows "raises_only_unauthenticated
           (atomic_connection (resend_data_on_reconnection func) self w)"
proof -
  obtain x s1 w1 where r: "reconnect self w = (x, s1, w1)"
    by (cases "reconnect self w") auto
  show ?thesis
  proof (cases x)
    case (Inl e)
    have "\<forall>e'. e \<noteq> Rpc e'"
    proof
      fix e'
      from reconnect_error_not_Rpc[of self w e'] r Inl show "e \<noteq> Rpc e'" by simp
    qed
    with r Inl show ?thesis
      by (cases e) (simp_all add: raises_only_unauthenticated_def atomic_connection_def)
  next
    case (Inr u)
    from resend_raises_only_unauthenticated[of func s1 w1] r Inr show ?thesis
      by (auto simp add: raises_only_unauthenticated_def atomic_connection_def
          split: option.splits sum.splits exn.splits)
  qed
qed

lemma resend_body_config:
  fixes w :: "'z reply_scheme world"
  shows "resend_data_on_reconnection (\<lambda>s. stamp_call_validate s name ret) self w =
           Some (res, self', w') \<Longrightarrow> self'\<lparr>header := None\<rparr> = self\<lparr>header := None\<rparr>"
  using resend_body_frame by blast

lemma body_config:
  "stamp_call_validate s name ret w = Some (res, s', w') \<Longrightarrow>
   s'\<lparr>header := None\<rparr> = s\<lparr>header := None\<rparr>"
  using stamp_call_validate_frame by blast

lemma keeps_config_resending:
  fixes w :: "'z reply_scheme world"
  shows "keeps_config self
     (atomic_connection
        (resend_data_on_reconnection (\<lambda>s. stamp_call_validate s name ret)) self w)"
  by (rule atomic_keeps_config) (rule resend_body_config)

lemma keeps_config_terminal:
  fixes w :: "'z reply_scheme world"
  shows "keeps_config self
     (handle_grpc_error (atomic_connection (\<lambda>s. stamp_call_validate s name ret)) self w)"
  by (rule handle_keeps_config, rule atomic_keeps_config) (rule body_config)



lemma settled_after_iff:
  "settled_after N self w =
     (fst (reconnect self w) = Inr () \<and> (\<forall>k<N. \<not> settles (server w (attempts w + k))) \<and>
      settles (server w (attempts w + N)) \<and>
      passes (interceptors self) (server w (attempts w + N)))"
  by (auto simp add: settled_after_def list_all_iff)

lemma resending_settled:
  fixes w :: "'z reply_scheme world"
  assumes "settled_after N self w"
  shows "\<exists>self' w'.
     atomic_connection
       (resend_data_on_reconnection (\<lambda>s. stamp_call_validate s name ret)) self w =
       Some (answer_result self name ret (server w (attempts w + N)), self', w') \<and>
     attempts w' = attempts w + N + 1"
  using assms atomic_resend_settles[of self w N name ret]
  by (auto simp add: settled_after_iff)

text \<open>The runs that the closed theorems below look at.\<close>

lemma get_tasks_example_run:
  assumes "settles x" "passes [example_retry (Some [UNAVAILABLE])] x"
  shows "\<exists>w'. get_tasks (example_client False) ''collab-1''
             (example_started (fails_then 0 e x)) =
           Some (answer_result (example_client False) ''collab-1''
                   (\<lambda>r. (tasks r, round_number r, sleep_time r, quit r)) x,
                 set_header
                   ((example_client False)
                      \<lparr>channel := 1,
                       stub := \<lparr>stub_channel = 1,
                                stub_interceptors = [example_retry (Some [UNAVAILABLE])]\<rparr>\<rparr>)
                   ''collab-1'', w') \<and>
         attempts w' = 1 \<and> slept w' = []"
proof -
  let ?c = "example_client False"
  let ?w = "example_started (fails_then 0 e x) :: GetTasksResponse world"
  have rc: "fst (reconnect ?c ?w) = Inr ()"
    by (simp add: reconnect_plaintext example_client_def)
  have x: "server ?w (attempts ?w) = x"
    by (simp add: example_started_def fails_then_def)
  have i: "interceptors ?c = [example_retry (Some [UNAVAILABLE])]"
    by (simp add: example_client_def)
  from atomic_resend_first[of ?c ?w "''collab-1''"
      "\<lambda>r. (tasks r, round_number r, sleep_time r, quit r)"] rc x i assms
  show ?thesis
    by (auto simp add: get_tasks_def example_started_def)
qed


section \<open>The fields of the client that operations change\<close>

text \<open>
  Claim C6 as stated fails: an operation also replaces the header of the client (and,
  with the channel, the stub bound to it). After \<^verbatim>\<open>get_tasks\<close> the header, which
  was \<^verbatim>\<open>None\<close>, is the header stamped for the call, and the stub is bound to the new
  channel.
\<close>

theorem get_tasks_replaces_the_header:
  "header (example_client False) = None \<and>
   map_option (header \<circ> fst \<circ> snd)
     (get_tasks (example_client False) ''collab-1''
        (example_started (fails_then 0 (RpcError UNKNOWN []) (Response example_tasks)))) =
     Some (Some \<lparr>sender = ''collab-1'', receiver = ''agg-uuid'', federation_uuid = ''fed-uuid'',
                 single_col_cert_common_name = []\<rparr>) \<and>
   stub_channel (stub (example_client False)) = 0 \<and>
   map_option (stub_channel \<circ> stub \<circ> fst \<circ> snd)
     (get_tasks (example_client False) ''collab-1''
        (example_started (fails_then 0 (RpcError UNKNOWN []) (Response example_tasks)))) =
     Some 1"
proof -
  from get_tasks_example_run[of "Response example_tasks" "RpcError UNKNOWN []"]
  obtain res w' where
    "get_tasks (example_client False) ''collab-1''
       (example_started (fails_then 0 (RpcError UNKNOWN []) (Response example_tasks))) =
     Some (res,
           set_header
             ((example_client False)
                \<lparr>channel := 1,
                 stub := \<lparr>stub_channel = 1,
                          stub_interceptors = [example_retry (Some [UNAVAILABLE])]\<rparr>\<rparr>)
             ''collab-1'', w')"
    by auto
  then show ?thesis
    by (simp add: set_header_def example_client_def)
qed

text \<open>
  Claim C6, amended. The address, the TLS flag, the client-authentication flag, the
  paths of the credentials, the aggregator uuid, the federation uuid, the common name
  and the interceptors are fixed when the client is constructed: every public operation,
  and \<^verbatim>\<open>reconnect\<close> itself, leaves a client that differs from the one it started
  with at most in the channel, the stub bound to the channel, and the header.
\<close>

theorem operations_keep_the_configuration:
  fixes u :: "GetTasksResponse world" and v :: "'t GetAggregatedTensorResponse world"
    and w :: "'z reply_scheme world"
  shows "keeps_config self (get_tasks self name u) \<and>
   keeps_config self
     (get_aggregated_tensor self name tensor_name round_no report tags require_lossless v) \<and>
   keeps_config self
     (send_local_task_results self name round_no task_name data_size named_tensors w) \<and>
   keeps_config self (connectivity_check self name w) \<and>
   keeps_config self (admin_add_collaborator self name col_label col_cn w) \<and>
   keeps_config self (admin_remove_collaborator self name col_label col_cn w) \<and>
   keeps_config self (admin_get_experiment_status convert self name w) \<and>
   keeps_config self (admin_set_straggler_cutoff_time self name timeout_in_seconds w) \<and>
   keeps_config self (Some (reconnect self w))"
proof (intro conjI)
  show "keeps_config self (get_tasks self name u)"
    unfolding get_tasks_def by (rule keeps_config_resending)
  show "keeps_config self
     (get_aggregated_tensor self name tensor_name round_no report tags require_lossless v)"
    unfolding get_aggregated_tensor_def by (rule keeps_config_resending)
  show "keeps_config self
     (send_local_task_results self name round_no task_name data_size named_tensors w)"
    unfolding send_local_task_results_def by (rule keeps_config_resending)
  show "keeps_config self (connectivity_check self name w)"
    unfolding connectivity_check_def by (rule keeps_config_terminal)
  show "keeps_config self (admin_add_collaborator self name col_label col_cn w)"
    unfolding admin_add_collaborator_def by (rule keeps_config_terminal)
  show "keeps_config self (admin_remove_collaborator self name col_label col_cn w)"
    unfolding admin_remove_collaborator_def by (rule keeps_config_terminal)
  show "keeps_config self (admin_get_experiment_status convert self name w)"
    unfolding admin_get_experiment_status_def by (rule keeps_config_terminal)
  show "keeps_config self (admin_set_straggler_cutoff_time self name timeout_in_seconds w)"
    unfolding admin_set_straggler_cutoff_time_def by (rule keeps_config_terminal)
  obtain x s1 w1 where r: "reconnect self w = (x, s1, w1)"
    by (cases "reconnect self w") auto
  from reconnect_client[of self w] r
  have "s1 = self\<lparr>channel := channel s1, stub := stub s1\<rparr>" by simp
  then have "s1 = self\<lparr>channel := channel s1, header := header s1, stub := stub s1\<rparr>"
    by (cases self, cases s1) simp
  with r show "keeps_config self (Some (reconnect self w))"
    by (simp add: keeps_config_def)
qed

theorem operations_keep_the_configuration_witness:
  "map_option (uri \<circ> fst \<circ> snd)
     (get_tasks (example_client False) ''collab-1''
        (example_started (fails_then 0 (RpcError UNKNOWN []) (Response example_tasks)))) =
     Some ''localhost:50051'' \<and>
   map_option (aggregator_uuid \<circ> fst \<circ> snd)
     (get_tasks (example_client False) ''collab-1''
        (example_started (fails_then 0 (RpcError UNKNOWN []) (Response example_tasks)))) =
     Some (Some ''agg-uuid'') \<and>
   map_option (tls \<circ> fst \<circ> snd)
     (get_tasks (example_client False) ''collab-1''
        (example_started (fails_then 0 (RpcError UNKNOWN []) (Response example_tasks)))) =
     Some False"
proof -
  let ?run = "get_tasks (example_client False) ''collab-1''
        (example_started (fails_then 0 (RpcError UNKNOWN []) (Response example_tasks)))"
  from get_tasks_example_run[of "Response example_tasks" "RpcError UNKNOWN []"]
  obtain res s' w' where run: "?run = Some (res, s', w')"
    by auto
  from operations_keep_the_configuration
         [of "example_client False" "''collab-1''"
             "example_started (fails_then 0 (RpcError UNKNOWN []) (Response example_tasks))",
          THEN conjunct1] run
  have "s' = (example_client False)\<lparr>channel := channel s', header := header s', stub := stub s'\<rparr>"
    by (simp add: keeps_config_def)
  then have "uri s' = ''localhost:50051''" "aggregator_uuid s' = Some ''agg-uuid''" "tls s' = False"
    by (cases s', simp add: example_client_def)+
  with run show ?thesis by simp
qed

section \<open>The life of the channel around an operation\<close>




section \<open>The resend loop of the facade\<close>

text \<open>
  Claim C2 as stated fails for the statuses that are neither \<^verbatim>\<open>UNKNOWN\<close> nor the
  authentication failure: they are not propagated, the call is made again. The server
  answers \<^verbatim>\<open>get_tasks\<close> with \<^verbatim>\<open>PERMISSION_DENIED\<close>, which the interceptor does not
  retry, and then with a response: \<^verbatim>\<open>get_tasks\<close> returns the response, after two
  attempts and no wait.
\<close>

theorem permission_denied_is_retried_not_raised:
  "map_option fst
     (get_tasks (example_client False) ''collab-1''
        (example_started
           (fails_then 1 (RpcError PERMISSION_DENIED ''denied'') (Response example_tasks)))) =
     Some (Inr ([''train'', ''validate''], 3, 0, False)) \<and>
   map_option (attempts \<circ> snd \<circ> snd)
     (get_tasks (example_client False) ''collab-1''
        (example_started
           (fails_then 1 (RpcError PERMISSION_DENIED ''denied'') (Response example_tasks)))) =
     Some 2"
proof -
  let ?w = "example_started
           (fails_then 1 (RpcError PERMISSION_DENIED ''denied'') (Response example_tasks))"
  have "settled_after 1 (example_client False) ?w"
    by (simp add: settled_after_iff reconnect_plaintext example_client_def
        example_started_def fails_then_def)
  from resending_settled[OF this, of "''collab-1''"
      "\<lambda>r. (tasks r, round_number r, sleep_time r, quit r)"]
  show ?thesis
    by (auto simp add: get_tasks_def example_started_def fails_then_def
        validate_response_def check_equal_def example_client_def example_tasks_def)
qed

text \<open>
  Claim C2, amended. For \<^verbatim>\<open>get_tasks\<close>, \<^verbatim>\<open>get_aggregated_tensor\<close> and
  \<^verbatim>\<open>send_local_task_results\<close>: a transport failure of any status other than the
  authentication failure is not raised to the caller, the call is made again,
  \<^verbatim>\<open>UNKNOWN\<close> or not. So when the channel opens,
  the next \<open>N\<close> answers are such failures and the answer after them is a response, or an
  authentication failure that no interceptor retries, the operation ends with that
  answer after \<open>N + 1\<close> attempts: it returns what it takes from the response (or raises
  the header mismatch), or raises the authentication failure. And the only transport
  failure the operation ever raises is the authentication failure.
\<close>

theorem resend_retries_all_but_authentication_failure:
  fixes u :: "GetTasksResponse world" and v :: "'t GetAggregatedTensorResponse world"
    and w :: "'z reply_scheme world"
  shows "(settled_after N self u \<longrightarrow>
      (\<exists>self' u'. get_tasks self name u =
          Some (answer_result self name
                  (\<lambda>r. (tasks r, round_number r, sleep_time r, quit r))
                  (server u (attempts u + N)), self', u') \<and>
        attempts u' = attempts u + N + 1)) \<and>
     raises_only_unauthenticated (get_tasks self name u) \<and>
     (settled_after N self v \<longrightarrow>
      (\<exists>self' v'.
        get_aggregated_tensor self name tensor_name round_no report tags require_lossless v =
          Some (answer_result self name tensor (server v (attempts v + N)), self', v') \<and>
        attempts v' = attempts v + N + 1)) \<and>
     raises_only_unauthenticated
       (get_aggregated_tensor self name tensor_name round_no report tags require_lossless v) \<and>
     (settled_after N self w \<longrightarrow>
      (\<exists>self' w'.
        send_local_task_results self name round_no task_name data_size named_tensors w =
          Some (answer_result self name (\<lambda>r. ()) (server w (attempts w + N)), self', w') \<and>
        attempts w' = attempts w + N + 1)) \<and>
     raises_only_unauthenticated
       (send_local_task_results self name round_no task_name data_size named_tensors w)"
  unfolding get_tasks_def get_aggregated_tensor_def send_local_task_results_def
  by (intro conjI impI resending_settled atomic_resend_raises_only_unauthenticated)

theorem resend_retries_all_but_authentication_failure_witness:
  "\<exists>self' u'.
     get_tasks (example_client False) ''collab-1''
       (example_started (fails_then 2 (RpcError UNKNOWN ''again'') (Response example_tasks))) =
       Some (Inr ([''train'', ''validate''], 3, 0, False), self', u') \<and>
     attempts u' = 3"
proof -
  let ?w = "example_started (fails_then 2 (RpcError UNKNOWN ''again'') (Response example_tasks))"
  have "settled_after 2 (example_client False) ?w"
    by (simp add: settled_after_iff reconnect_plaintext example_client_def
        example_started_def fails_then_def)
  with resend_retries_all_but_authentication_failure
         [of 2 "example_client False" ?w "''collab-1''", THEN conjunct1]
  show ?thesis
    by (auto simp add: example_started_def fails_then_def
        validate_response_def check_equal_def example_client_def example_tasks_def)
qed

end
